theory Spec2Isabelle
  imports Main "HOL-Library.Char_ord" "HOL-Library.List_Lexorder"
begin

section \<open>Python values used by the ledger\<close>

text \<open>
  The ledger of \<^verbatim>\<open>apps/blockchain/blockchain_service.py\<close> stores dictionaries whose
  values are \<^verbatim>\<open>None\<close>, integers or strings. A Python \<^verbatim>\<open>str\<close> is modelled as a
  \<^typ>\<open>string\<close> whose characters are the code points below 256; Python's \<^verbatim>\<open>==\<close> on
  these three kinds of value is structural equality. A \<^verbatim>\<open>dict\<close> with string keys is
  an association list in insertion order (keys distinct); \<^verbatim>\<open>d.get(k)\<close> gives
  \<^verbatim>\<open>None\<close> for a missing key.

  Integers are Python's unbounded integers, and \<^verbatim>\<open>str\<close> and \<^verbatim>\<open>json.dumps\<close> convert
  every one of them to its decimal text. CPython from 3.11 on refuses the conversion of an
  integer of more than \<^verbatim>\<open>sys.int_max_str_digits\<close> digits (4300 unless the limit is
  changed) with a \<^verbatim>\<open>ValueError\<close>; a statement that rests on a conversion going
  through names that bound as \<open>text_convertible\<close>.
\<close>

datatype pyval = PNone | PInt int | PStr string

type_synonym pydict = "(string \<times> pyval) list"

datatype error = AttributeError | IndexError

definition dict_get :: "pydict \<Rightarrow> string \<Rightarrow> pyval" where
  "dict_get d k = (case map_of d k of None \<Rightarrow> PNone | Some v \<Rightarrow> v)"

text \<open>Truth value of an object in \<^verbatim>\<open>if x:\<close>.\<close>

fun py_truthy :: "pyval \<Rightarrow> bool" where
  "py_truthy PNone = False"
| "py_truthy (PInt i) = (i \<noteq> 0)"
| "py_truthy (PStr s) = (s \<noteq> [])"

fun dec :: "nat \<Rightarrow> string" where
  "dec n = (if n < 10 then [''0123456789'' ! n]
            else dec (n div 10) @ [''0123456789'' ! (n mod 10)])"

declare dec.simps [simp del]

definition py_str_int :: "int \<Rightarrow> string" where
  "py_str_int i = (if i < 0 then CHR ''-'' # dec (nat (- i)) else dec (nat i))"

text \<open>\<^verbatim>\<open>str(x)\<close>.\<close>

fun py_str :: "pyval \<Rightarrow> string" where
  "py_str PNone = ''None''"
| "py_str (PInt i) = py_str_int i"
| "py_str (PStr s) = s"

text \<open>
  The values that \<^verbatim>\<open>str\<close> and \<^verbatim>\<open>json.dumps\<close> convert under CPython's default limit
  on the digits of an integer: \<^verbatim>\<open>None\<close>, every string, and the integers of at most 4300
  digits.
\<close>

definition int_max_str_digits :: nat where
  "int_max_str_digits = 4300"

fun text_convertible :: "pyval \<Rightarrow> bool" where
  "text_convertible (PInt i) = (\<bar>i\<bar> < 10 ^ int_max_str_digits)"
| "text_convertible v = True"

text \<open>\<^verbatim>\<open>s.encode()\<close>: UTF-8, one byte below 128 and two bytes from 128 to 255.\<close>

definition utf8_char :: "char \<Rightarrow> string" where
  "utf8_char c = (let n = (of_char c :: nat) in
     if n < 128 then [c] else [char_of (192 + n div 64), char_of (128 + n mod 64)])"

definition utf8 :: "string \<Rightarrow> string" where
  "utf8 s = concat (map utf8_char s)"

text \<open>\<^verbatim>\<open>x.encode()\<close> on a value: only a \<^verbatim>\<open>str\<close> has the method.\<close>

fun py_encode :: "pyval \<Rightarrow> error + string" where
  "py_encode (PStr s) = Inr (utf8 s)"
| "py_encode v = Inl AttributeError"

section \<open>\<^verbatim>\<open>json.dumps(obj, sort_keys=True)\<close>\<close>

datatype json = JNull | JInt int | JStr string | JObj "(string \<times> json) list"

definition hexdigit :: "nat \<Rightarrow> char" where
  "hexdigit n = ''0123456789abcdef'' ! n"

text \<open>
  The escapes of the encoder with \<^verbatim>\<open>ensure_ascii\<close>: the quote and the backslash, the
  five short control escapes, and \<^verbatim>\<open>\uXXXX\<close> for everything outside space to tilde.
\<close>

definition json_char :: "char \<Rightarrow> string" where
  "json_char c = (let n = (of_char c :: nat) in
     if c = CHR 0x22 then [CHR 0x5C, CHR 0x22]
     else if c = CHR 0x5C then [CHR 0x5C, CHR 0x5C]
     else if c = CHR 0x0A then [CHR 0x5C, CHR ''n'']
     else if c = CHR 0x0D then [CHR 0x5C, CHR ''r'']
     else if c = CHR 0x09 then [CHR 0x5C, CHR ''t'']
     else if c = CHR 0x08 then [CHR 0x5C, CHR ''b'']
     else if c = CHR 0x0C then [CHR 0x5C, CHR ''f'']
     else if 32 \<le> n \<and> n \<le> 126 then [c]
     else [CHR 0x5C, CHR ''u'', CHR ''0'', CHR ''0'', hexdigit (n div 16), hexdigit (n mod 16)])"

definition json_string :: "string \<Rightarrow> string" where
  "json_string s = CHR 0x22 # concat (map json_char s) @ [CHR 0x22]"

fun join_items :: "(string \<times> string) list \<Rightarrow> string" where
  "join_items [] = []"
| "join_items [(k, v)] = json_string k @ '': '' @ v"
| "join_items ((k, v) # kvs) = json_string k @ '': '' @ v @ '', '' @ join_items kvs"

primrec json_dumps :: "json \<Rightarrow> string" where
  "json_dumps JNull = ''null''"
| "json_dumps (JInt i) = py_str_int i"
| "json_dumps (JStr s) = json_string s"
| "json_dumps (JObj items) =
     ''{'' @ join_items (sort_key fst (map (map_prod id json_dumps) items)) @ ''}''"

fun json_of_pyval :: "pyval \<Rightarrow> json" where
  "json_of_pyval PNone = JNull"
| "json_of_pyval (PInt i) = JInt i"
| "json_of_pyval (PStr s) = JStr s"

definition json_of_dict :: "pydict \<Rightarrow> json" where
  "json_of_dict d = JObj (map (map_prod id json_of_pyval) d)"

section \<open>class Block\<close>

text \<open>
  \<^verbatim>\<open>hashlib.sha256(bs).hexdigest()\<close> belongs to the Python library, not to the
  repository: every operation takes it as the parameter \<open>H\<close>, from the encoded bytes to
  the hex digest.
\<close>

type_synonym digest = "string \<Rightarrow> string"

record block =
  index :: int
  timestamp :: string
  data :: pydict
  previous_hash :: string
  nonce :: int
  hash :: string

definition block_string :: "block \<Rightarrow> string" where
  "block_string b = json_dumps (JObj
     [(''index'', JInt (index b)),
      (''timestamp'', JStr (timestamp b)),
      (''data'', json_of_dict (data b)),
      (''previous_hash'', JStr (previous_hash b)),
      (''nonce'', JInt (nonce b))])"

definition calculate_hash :: "digest \<Rightarrow> block \<Rightarrow> string" where
  "calculate_hash H b = H (utf8 (block_string b))"

text \<open>\<^verbatim>\<open>Block.__init__\<close>: the nonce starts at 0 and the hash is computed last.\<close>

definition Block_init :: "digest \<Rightarrow> int \<Rightarrow> string \<Rightarrow> pydict \<Rightarrow> string \<Rightarrow> block" where
  "Block_init H i t d p =
     (let b = \<lparr>index = i, timestamp = t, data = d, previous_hash = p, nonce = 0, hash = []\<rparr>
      in b\<lparr>hash := calculate_hash H b\<rparr>)"

text \<open>\<^verbatim>\<open>s[:n]\<close> for any integer \<open>n\<close>, and \<^verbatim>\<open>'0' * n\<close>.\<close>

definition py_slice_to :: "string \<Rightarrow> int \<Rightarrow> string" where
  "py_slice_to s n = (if 0 \<le> n then take (nat n) s else take (nat (int (length s) + n)) s)"

definition target :: "int \<Rightarrow> string" where
  "target n = replicate (nat n) CHR ''0''"

text \<open>One pass of the body of the mining loop.\<close>

definition next_nonce :: "digest \<Rightarrow> block \<Rightarrow> block" where
  "next_nonce H b = (let b' = b\<lparr>nonce := nonce b + 1\<rparr> in b'\<lparr>hash := calculate_hash H b'\<rparr>)"

text \<open>The loop has no bound: a run that never leaves it is \<open>None\<close>.\<close>

partial_function (option) mine_block :: "digest \<Rightarrow> int \<Rightarrow> block \<Rightarrow> block option" where
  "mine_block H n b =
     (if py_slice_to (hash b) n \<noteq> target n then mine_block H n (next_nonce H b)
      else Some b)"

definition to_dict :: "block \<Rightarrow> (string \<times> json) list" where
  "to_dict b =
     [(''index'', JInt (index b)),
      (''timestamp'', JStr (timestamp b)),
      (''data'', json_of_dict (data b)),
      (''previous_hash'', JStr (previous_hash b)),
      (''nonce'', JInt (nonce b)),
      (''hash'', JStr (hash b))]"

section \<open>class VotingBlockchain\<close>

record VotingBlockchain =
  chain :: "block list"
  difficulty :: int

text \<open>
  The clock is an input: each operation that reads \<^verbatim>\<open>datetime.now()\<close> takes the
  string it read as \<open>now\<close>.
\<close>

definition create_genesis_block :: "digest \<Rightarrow> string \<Rightarrow> VotingBlockchain \<Rightarrow> VotingBlockchain option" where
  "create_genesis_block H now bc =
     (case mine_block H (difficulty bc)
             (Block_init H 0 now
                [(''type'', PStr ''genesis''),
                 (''message'', PStr ''Genesis Block - Matdaan Voting System'')] ''0'') of
        None \<Rightarrow> None
      | Some genesis_block \<Rightarrow> Some (bc\<lparr>chain := chain bc @ [genesis_block]\<rparr>))"

definition VotingBlockchain_init :: "digest \<Rightarrow> string \<Rightarrow> VotingBlockchain option" where
  "VotingBlockchain_init H now = create_genesis_block H now \<lparr>chain = [], difficulty = 2\<rparr>"

text \<open>\<^verbatim>\<open>self.chain[-1]\<close> raises on an empty list.\<close>

definition get_latest_block :: "VotingBlockchain \<Rightarrow> error + block" where
  "get_latest_block bc = (if chain bc = [] then Inl IndexError else Inr (last (chain bc)))"

definition add_block ::
  "digest \<Rightarrow> string \<Rightarrow> pydict \<Rightarrow> VotingBlockchain \<Rightarrow> (error + block \<times> VotingBlockchain) option" where
  "add_block H now d bc =
     (case get_latest_block bc of
        Inl e \<Rightarrow> Some (Inl e)
      | Inr latest \<Rightarrow>
          (case mine_block H (difficulty bc)
                  (Block_init H (int (length (chain bc))) now d (hash latest)) of
             None \<Rightarrow> None
           | Some new_block \<Rightarrow> Some (Inr (new_block, bc\<lparr>chain := chain bc @ [new_block]\<rparr>))))"

text \<open>The loop of \<^verbatim>\<open>is_chain_valid\<close> over \<^verbatim>\<open>range(1, len(self.chain))\<close>.\<close>

fun is_chain_valid_loop :: "digest \<Rightarrow> block list \<Rightarrow> nat list \<Rightarrow> bool" where
  "is_chain_valid_loop H c [] = True"
| "is_chain_valid_loop H c (i # rest) =
     (let current_block = c ! i; previous_block = c ! (i - 1) in
      if hash current_block \<noteq> calculate_hash H current_block then False
      else if previous_hash current_block \<noteq> hash previous_block then False
      else is_chain_valid_loop H c rest)"

definition is_chain_valid :: "digest \<Rightarrow> VotingBlockchain \<Rightarrow> bool" where
  "is_chain_valid H bc = is_chain_valid_loop H (chain bc) [1..<length (chain bc)]"

fun get_block_by_hash_loop :: "block list \<Rightarrow> string \<Rightarrow> block option" where
  "get_block_by_hash_loop [] block_hash = None"
| "get_block_by_hash_loop (b # rest) block_hash =
     (if hash b = block_hash then Some b else get_block_by_hash_loop rest block_hash)"

definition get_block_by_hash :: "VotingBlockchain \<Rightarrow> string \<Rightarrow> block option" where
  "get_block_by_hash bc block_hash = get_block_by_hash_loop (chain bc) block_hash"

definition is_vote_for :: "pyval \<Rightarrow> block \<Rightarrow> bool" where
  "is_vote_for election_id b =
     (dict_get (data b) ''type'' = PStr ''vote'' \<and> dict_get (data b) ''election_id'' = election_id)"

definition get_blocks_by_election :: "VotingBlockchain \<Rightarrow> pyval \<Rightarrow> block list" where
  "get_blocks_by_election bc election_id = filter (is_vote_for election_id) (chain bc)"

text \<open>A sequence of \<^verbatim>\<open>add_block\<close> calls, each with the clock reading and the payload.\<close>

fun add_blocks ::
  "digest \<Rightarrow> (string \<times> pydict) list \<Rightarrow> VotingBlockchain \<Rightarrow> (error + VotingBlockchain) option" where
  "add_blocks H [] bc = Some (Inr bc)"
| "add_blocks H ((now, d) # calls) bc =
     (case add_block H now d bc of
        None \<Rightarrow> None
      | Some (Inl e) \<Rightarrow> Some (Inl e)
      | Some (Inr (b, bc')) \<Rightarrow> add_blocks H calls bc')"

section \<open>class BlockchainService\<close>

record BlockchainService =
  blockchain :: VotingBlockchain

definition BlockchainService_init :: "digest \<Rightarrow> string \<Rightarrow> BlockchainService option" where
  "BlockchainService_init H now =
     (case VotingBlockchain_init H now of
        None \<Rightarrow> None
      | Some bc \<Rightarrow> Some \<lparr>blockchain = bc\<rparr>)"

text \<open>The dictionary returned by \<^verbatim>\<open>cast_vote_to_blockchain\<close>, key by key.\<close>

record cast_receipt =
  success :: bool
  block_hash :: string
  transaction_hash :: string
  block_index :: int
  receipt_timestamp :: string

text \<open>
  \<^verbatim>\<open>cast_vote_to_blockchain\<close> reads the clock twice (for the payload and, inside
  \<^verbatim>\<open>add_block\<close>, for the block) and draws \<^verbatim>\<open>secrets.token_hex(16)\<close>: the three
  readings are the inputs \<open>now_vote\<close>, \<open>token\<close> and \<open>now_block\<close>. The arguments are
  any Python values; the payload is built in the order of the dictionary display, so
  \<^verbatim>\<open>voter_id.encode()\<close> fails first.
\<close>

definition vote_data_of :: "digest \<Rightarrow> string \<Rightarrow> string \<Rightarrow> string \<Rightarrow> pyval \<Rightarrow> pyval \<Rightarrow> pydict" where
  "vote_data_of H now_vote token voter_bytes election_id candidate_id =
     [(''type'', PStr ''vote''),
      (''voter_hash'', PStr (H voter_bytes)),
      (''election_id'', election_id),
      (''candidate_hash'', PStr (H (utf8 (py_str candidate_id)))),
      (''timestamp'', PStr now_vote),
      (''transaction_id'', PStr token)]"

definition cast_vote_to_blockchain ::
  "digest \<Rightarrow> string \<Rightarrow> string \<Rightarrow> string \<Rightarrow> pyval \<Rightarrow> pyval \<Rightarrow> pyval \<Rightarrow> BlockchainService
     \<Rightarrow> (error + cast_receipt \<times> BlockchainService) option" where
  "cast_vote_to_blockchain H now_vote token now_block voter_id election_id candidate_id svc =
     (case py_encode voter_id of
        Inl e \<Rightarrow> Some (Inl e)
      | Inr voter_bytes \<Rightarrow>
          (let vote_data = vote_data_of H now_vote token voter_bytes election_id candidate_id in
           case add_block H now_block vote_data (blockchain svc) of
             None \<Rightarrow> None
           | Some (Inl e) \<Rightarrow> Some (Inl e)
           | Some (Inr (b, bc')) \<Rightarrow>
               Some (Inr (\<lparr>success = True,
                            block_hash = hash b,
                            transaction_hash = token,
                            block_index = index b,
                            receipt_timestamp = timestamp b\<rparr>,
                          svc\<lparr>blockchain := bc'\<rparr>))))"

text \<open>The two dictionaries \<^verbatim>\<open>verify_vote\<close> can return.\<close>

datatype verify_result =
    NotVerified string
  | Verified bool int string pydict string

definition verify_vote :: "digest \<Rightarrow> BlockchainService \<Rightarrow> string \<Rightarrow> verify_result" where
  "verify_vote H svc bh =
     (case get_block_by_hash (blockchain svc) bh of
        None \<Rightarrow> NotVerified ''Vote not found on blockchain''
      | Some b \<Rightarrow>
          (let is_valid = is_chain_valid H (blockchain svc) in
           Verified is_valid (index b) (timestamp b) (data b) ''Vote verified on blockchain''))"

text \<open>\<^verbatim>\<open>vote_counts[k] = vote_counts.get(k, 0) + 1\<close> on a dictionary in insertion order.\<close>

fun dict_incr :: "(pyval \<times> int) list \<Rightarrow> pyval \<Rightarrow> (pyval \<times> int) list" where
  "dict_incr [] k = [(k, 1)]"
| "dict_incr ((k', n) # rest) k =
     (if k' = k then (k', n + 1) # rest else (k', n) # dict_incr rest k)"

fun count_votes :: "block list \<Rightarrow> (pyval \<times> int) list \<Rightarrow> (pyval \<times> int) list" where
  "count_votes [] vote_counts = vote_counts"
| "count_votes (b # rest) vote_counts =
     (let candidate_hash = dict_get (data b) ''candidate_hash'' in
      if py_truthy candidate_hash then count_votes rest (dict_incr vote_counts candidate_hash)
      else count_votes rest vote_counts)"

record election_results =
  election_id :: pyval
  total_votes :: int
  vote_distribution :: "(pyval \<times> int) list"
  blockchain_verified :: bool

definition get_election_results :: "digest \<Rightarrow> BlockchainService \<Rightarrow> pyval \<Rightarrow> election_results" where
  "get_election_results H svc e =
     (let blocks = get_blocks_by_election (blockchain svc) e in
      \<lparr>election_id = e,
       total_votes = int (length blocks),
       vote_distribution = count_votes blocks [],
       blockchain_verified = is_chain_valid H (blockchain svc)\<rparr>)"

fun has_voter_voted_loop :: "block list \<Rightarrow> pyval \<Rightarrow> bool" where
  "has_voter_voted_loop [] voter_hash = False"
| "has_voter_voted_loop (b # rest) voter_hash =
     (if dict_get (data b) ''voter_hash'' = voter_hash then True
      else has_voter_voted_loop rest voter_hash)"

definition has_voter_voted :: "digest \<Rightarrow> BlockchainService \<Rightarrow> pyval \<Rightarrow> pyval \<Rightarrow> error + bool" where
  "has_voter_voted H svc voter_id e =
     (case py_encode voter_id of
        Inl err \<Rightarrow> Inl err
      | Inr voter_bytes \<Rightarrow>
          Inr (has_voter_voted_loop (get_blocks_by_election (blockchain svc) e)
                 (PStr (H voter_bytes))))"

record blockchain_stats =
  total_blocks :: int
  is_valid :: bool
  latest_block_hash :: string
  stats_difficulty :: int

definition get_blockchain_stats :: "digest \<Rightarrow> BlockchainService \<Rightarrow> error + blockchain_stats" where
  "get_blockchain_stats H svc =
     (case get_latest_block (blockchain svc) of
        Inl e \<Rightarrow> Inl e
      | Inr latest \<Rightarrow>
          Inr \<lparr>total_blocks = int (length (chain (blockchain svc))),
               is_valid = is_chain_valid H (blockchain svc),
               latest_block_hash = hash latest,
               stats_difficulty = difficulty (blockchain svc)\<rparr>)"

definition export_blockchain :: "BlockchainService \<Rightarrow> (string \<times> json) list list" where
  "export_blockchain svc = map to_dict (chain (blockchain svc))"

text \<open>
  The public operations as requests. Only \<^verbatim>\<open>cast_vote_to_blockchain\<close> assigns to
  the service; the others return their answer and leave it as it is.
\<close>

datatype request =
    CastVote string string string pyval pyval pyval
  | VerifyVote string
  | GetElectionResults pyval
  | HasVoterVoted pyval pyval
  | GetBlockchainStats
  | ExportBlockchain

datatype response =
    Receipt cast_receipt
  | Verification verify_result
  | Results election_results
  | Voted bool
  | Stats blockchain_stats
  | Export "(string \<times> json) list list"

fun perform ::
  "digest \<Rightarrow> request \<Rightarrow> BlockchainService \<Rightarrow> (error + response \<times> BlockchainService) option" where
  "perform H (CastVote now_vote token now_block v e c) svc =
     (case cast_vote_to_blockchain H now_vote token now_block v e c svc of
        None \<Rightarrow> None
      | Some (Inl err) \<Rightarrow> Some (Inl err)
      | Some (Inr (r, svc')) \<Rightarrow> Some (Inr (Receipt r, svc')))"
| "perform H (VerifyVote bh) svc = Some (Inr (Verification (verify_vote H svc bh), svc))"
| "perform H (GetElectionResults e) svc = Some (Inr (Results (get_election_results H svc e), svc))"
| "perform H (HasVoterVoted v e) svc =
     (case has_voter_voted H svc v e of
        Inl err \<Rightarrow> Some (Inl err)
      | Inr r \<Rightarrow> Some (Inr (Voted r, svc)))"
| "perform H GetBlockchainStats svc =
     (case get_blockchain_stats H svc of
        Inl err \<Rightarrow> Some (Inl err)
      | Inr r \<Rightarrow> Some (Inr (Stats r, svc)))"
| "perform H ExportBlockchain svc = Some (Inr (Export (export_blockchain svc), svc))"

text \<open>
  A session of requests. A request that raises leaves the service as it was and the
  next request is served; a request that never returns ends the session.
\<close>

fun serve :: "digest \<Rightarrow> request list \<Rightarrow> BlockchainService \<Rightarrow> BlockchainService option" where
  "serve H [] svc = Some svc"
| "serve H (r # rs) svc =
     (case perform H r svc of
        None \<Rightarrow> None
      | Some (Inl err) \<Rightarrow> serve H rs svc
      | Some (Inr (resp, svc')) \<Rightarrow> serve H rs svc')"

section \<open>An example session\<close>

text \<open>
  The byte strings hashed in the example session of this theory, each with its SHA-256
  hex digest as \<^verbatim>\<open>hashlib\<close> computes it. The session builds a service at
  \<^verbatim>\<open>2024-01-15 10:30:00.000010\<close> and casts the vote of \<^verbatim>\<open>voterA\<close> for candidate 1 in
  election 1. \<open>sha256_sample\<close> is SHA-256 on these strings and a fixed string of 64
  hex digits elsewhere; the examples hash no other string.
\<close>

definition sample_digests :: "(string \<times> string) list" where
  \<open>sample_digests =
     [(''{"data": {"message": "Genesis Block - Matdaan Voting System", "type": "genesis"}, "index": 0, "nonce": 0, "previous_hash": "0", "timestamp": "2024-01-15 10:30:00.000010"}'',
       ''0090b97adf7bca93f5466f45472ad79c241910490d12ff9fa1ab8d63a13912af''),
      (''voterA'',
       ''e0e7d84b97f29d8caa83768ebeb391c48d8a4363d7a7c3d9871a9ed8d2128503''),
      (''1'',
       ''6b86b273ff34fce19d6b804eff5a3f5747ada4eaa22f1d49c01e52ddb7875b4b''),
      (''{"data": {"candidate_hash": "6b86b273ff34fce19d6b804eff5a3f5747ada4eaa22f1d49c01e52ddb7875b4b", "election_id": 1, "timestamp": "2024-01-15 10:31:07.000100", "transaction_id": "0123456789abcdef0123456789abcdef", "type": "vote", "voter_hash": "e0e7d84b97f29d8caa83768ebeb391c48d8a4363d7a7c3d9871a9ed8d2128503"}, "index": 1, "nonce": 0, "previous_hash": "0090b97adf7bca93f5466f45472ad79c241910490d12ff9fa1ab8d63a13912af", "timestamp": "2024-01-15 10:31:07.000664"}'',
       ''be31ff5d29dc1bb00184fb683caef996095a8ae2fd4408a073edb7bd63802d8e''),
      (''{"data": {"candidate_hash": "6b86b273ff34fce19d6b804eff5a3f5747ada4eaa22f1d49c01e52ddb7875b4b", "election_id": 1, "timestamp": "2024-01-15 10:31:07.000100", "transaction_id": "0123456789abcdef0123456789abcdef", "type": "vote", "voter_hash": "e0e7d84b97f29d8caa83768ebeb391c48d8a4363d7a7c3d9871a9ed8d2128503"}, "index": 1, "nonce": 1, "previous_hash": "0090b97adf7bca93f5466f45472ad79c241910490d12ff9fa1ab8d63a13912af", "timestamp": "2024-01-15 10:31:07.000664"}'',
       ''006c3a066d5e778aff08c434c27eb332e4d0f0cbf224b1a4eefde43cfa1667f1''),
      (''None'',
       ''dc937b59892604f5a86ac96936cd7ff09e25f18ae6b758e8014a24c7fa039e91''),
      (''{"data": {"candidate_hash": "dc937b59892604f5a86ac96936cd7ff09e25f18ae6b758e8014a24c7fa039e91", "election_id": null, "timestamp": "2024-01-15 10:32:11.000200", "transaction_id": "fedcba9876543210fedcba9876543210", "type": "vote", "voter_hash": "e0e7d84b97f29d8caa83768ebeb391c48d8a4363d7a7c3d9871a9ed8d2128503"}, "index": 1, "nonce": 0, "previous_hash": "0090b97adf7bca93f5466f45472ad79c241910490d12ff9fa1ab8d63a13912af", "timestamp": "2024-01-15 10:32:11.000035"}'',
       ''006c4c481a8e8a9a4aea000a4398fe3dff2253891da7b7e5bc2fadc7d7ddd498''),
      (''{"data": {"message": "Genesis Block - Matdaan Voting System", "type": "genesis"}, "index": 0, "nonce": 1, "previous_hash": "0", "timestamp": "2024-01-15 10:30:00.000010"}'',
       ''595d890c1ccd58ee7aa16029df94659500c1d97fc7572455115312fd1f90ad8f''),
      (''voterB'',
       ''ee68468fab8c0db2282e2d7f3e66de14dc6917fb7733d8202ec589aaa44534d9'')]\<close>

definition sha256_sample :: digest where
  "sha256_sample bs =
     (case map_of sample_digests bs of None \<Rightarrow> replicate 64 CHR ''f'' | Some h \<Rightarrow> h)"

definition genesis_sample :: block where
  "genesis_sample =
     \<lparr>index = 0, timestamp = ''2024-01-15 10:30:00.000010'',
      data = [(''type'', PStr ''genesis''),
              (''message'', PStr ''Genesis Block - Matdaan Voting System'')],
      previous_hash = ''0'', nonce = 0,
      hash = ''0090b97adf7bca93f5466f45472ad79c241910490d12ff9fa1ab8d63a13912af''\<rparr>"

definition vote_sample :: block where
  "vote_sample =
     \<lparr>index = 1, timestamp = ''2024-01-15 10:31:07.000664'',
      data = [(''type'', PStr ''vote''),
              (''voter_hash'', PStr ''e0e7d84b97f29d8caa83768ebeb391c48d8a4363d7a7c3d9871a9ed8d2128503''),
              (''election_id'', PInt 1),
              (''candidate_hash'', PStr ''6b86b273ff34fce19d6b804eff5a3f5747ada4eaa22f1d49c01e52ddb7875b4b''),
              (''timestamp'', PStr ''2024-01-15 10:31:07.000100''),
              (''transaction_id'', PStr ''0123456789abcdef0123456789abcdef'')],
      previous_hash = ''0090b97adf7bca93f5466f45472ad79c241910490d12ff9fa1ab8d63a13912af'',
      nonce = 1,
      hash = ''006c3a066d5e778aff08c434c27eb332e4d0f0cbf224b1a4eefde43cfa1667f1''\<rparr>"

text \<open>The block of a vote cast by \<^verbatim>\<open>voterA\<close> with no election and no candidate.\<close>

definition unchecked_vote_sample :: block where
  "unchecked_vote_sample =
     \<lparr>index = 1, timestamp = ''2024-01-15 10:32:11.000035'',
      data = [(''type'', PStr ''vote''),
              (''voter_hash'', PStr ''e0e7d84b97f29d8caa83768ebeb391c48d8a4363d7a7c3d9871a9ed8d2128503''),
              (''election_id'', PNone),
              (''candidate_hash'', PStr ''dc937b59892604f5a86ac96936cd7ff09e25f18ae6b758e8014a24c7fa039e91''),
              (''timestamp'', PStr ''2024-01-15 10:32:11.000200''),
              (''transaction_id'', PStr ''fedcba9876543210fedcba9876543210'')],
      previous_hash = ''0090b97adf7bca93f5466f45472ad79c241910490d12ff9fa1ab8d63a13912af'',
      nonce = 0,
      hash = ''006c4c481a8e8a9a4aea000a4398fe3dff2253891da7b7e5bc2fadc7d7ddd498''\<rparr>"

definition chain0_sample :: VotingBlockchain where
  "chain0_sample = \<lparr>chain = [genesis_sample], difficulty = 2\<rparr>"

definition chain1_sample :: VotingBlockchain where
  "chain1_sample = \<lparr>chain = [genesis_sample, vote_sample], difficulty = 2\<rparr>"

section \<open>Properties of blocks and chains\<close>

text \<open>
  The hash rule in the words of the specification: the five fields other than the hash,
  serialized with the keys in sorted order (\<^verbatim>\<open>data\<close>, \<^verbatim>\<open>index\<close>, \<^verbatim>\<open>nonce\<close>,
  \<^verbatim>\<open>previous_hash\<close>, \<^verbatim>\<open>timestamp\<close>), the payload with its own keys sorted.
\<close>

definition canonical_dict :: "pydict \<Rightarrow> string" where
  "canonical_dict d =
     ''{'' @ join_items (sort_key fst (map (\<lambda>(k, v). (k, json_dumps (json_of_pyval v))) d)) @ ''}''"

definition canonical_json :: "block \<Rightarrow> string" where
  \<open>canonical_json b =
     ''{"data": '' @ canonical_dict (data b) @
     '', "index": '' @ py_str_int (index b) @
     '', "nonce": '' @ py_str_int (nonce b) @
     '', "previous_hash": '' @ json_string (previous_hash b) @
     '', "timestamp": '' @ json_string (timestamp b) @ ''}''\<close>

text \<open>
  What a finished search leaves: the block \<open>b'\<close> has the fields of \<open>b\<close> before the
  nonce, its stored hash is the digest of its fields and meets the target, and no
  nonce from that of \<open>b\<close> up to its own does.
\<close>

definition mined :: "digest \<Rightarrow> int \<Rightarrow> block \<Rightarrow> block \<Rightarrow> bool" where
  "mined H n b b' \<longleftrightarrow>
     hash b' = calculate_hash H b' \<and> py_slice_to (hash b') n = target n \<and>
     index b' = index b \<and> timestamp b' = timestamp b \<and> data b' = data b \<and>
     previous_hash b' = previous_hash b \<and> nonce b \<le> nonce b' \<and>
     (\<forall>m. nonce b \<le> m \<and> m < nonce b' \<longrightarrow>
        py_slice_to (calculate_hash H (b\<lparr>nonce := m\<rparr>)) n \<noteq> target n)"

text \<open>
  The linkage of the chain: every block after the first names the hash of the block
  before it and carries its own position.
\<close>

definition chain_linked :: "block list \<Rightarrow> bool" where
  "chain_linked c \<longleftrightarrow>
     (\<forall>i. 0 < i \<and> i < length c \<longrightarrow>
        previous_hash (c ! i) = hash (c ! (i - 1)) \<and> index (c ! i) = int i)"

text \<open>Every stored hash is the digest of the stored fields.\<close>

definition hashes_consistent :: "digest \<Rightarrow> block list \<Rightarrow> bool" where
  "hashes_consistent H c \<longleftrightarrow> (\<forall>i < length c. hash (c ! i) = calculate_hash H (c ! i))"

text \<open>Every vote block names a candidate hash that counts as true.\<close>

definition votes_carry_candidate :: "block list \<Rightarrow> bool" where
  "votes_carry_candidate c \<longleftrightarrow>
     (\<forall>b \<in> set c. dict_get (data b) ''type'' = PStr ''vote'' \<longrightarrow>
        py_truthy (dict_get (data b) ''candidate_hash''))"

section \<open>Mining\<close>

lemma calculate_hash_hash_update: "calculate_hash H (b\<lparr>hash := h\<rparr>) = calculate_hash H b"
  by (simp add: calculate_hash_def block_string_def)

lemma next_nonce_fields:
  "index (next_nonce H b) = index b" "timestamp (next_nonce H b) = timestamp b"
  "data (next_nonce H b) = data b" "previous_hash (next_nonce H b) = previous_hash b"
  "nonce (next_nonce H b) = nonce b + 1"
  "hash (next_nonce H b) = calculate_hash H (next_nonce H b)"
  by (simp_all add: next_nonce_def Let_def calculate_hash_hash_update)

lemma calculate_hash_cong:
  "index a = index b \<Longrightarrow> timestamp a = timestamp b \<Longrightarrow> data a = data b \<Longrightarrow>
   previous_hash a = previous_hash b \<Longrightarrow> nonce a = nonce b \<Longrightarrow>
   calculate_hash H a = calculate_hash H b"
  by (simp add: calculate_hash_def block_string_def)

lemma mined_refl:
  "hash b = calculate_hash H b \<Longrightarrow> py_slice_to (hash b) n = target n \<Longrightarrow> mined H n b b"
  by (auto simp: mined_def)

lemma mined_step:
  assumes consistent: "hash b = calculate_hash H b"
    and unsealed: "py_slice_to (hash b) n \<noteq> target n"
    and rest: "mined H n (next_nonce H b) b'"
  shows "mined H n b b'"
proof -
  have same: "calculate_hash H (next_nonce H b\<lparr>nonce := m\<rparr>) = calculate_hash H (b\<lparr>nonce := m\<rparr>)" for m
    by (rule calculate_hash_cong) (simp_all add: next_nonce_fields)
  have first: "py_slice_to (calculate_hash H (b\<lparr>nonce := nonce b\<rparr>)) n \<noteq> target n"
    using consistent unsealed by simp
  have later: "py_slice_to (calculate_hash H (b\<lparr>nonce := m\<rparr>)) n \<noteq> target n"
    if "nonce b \<le> m" "m < nonce b'" for m
  proof (cases "m = nonce b")
    case True
    with first show ?thesis by simp
  next
    case False
    with that have "nonce (next_nonce H b) \<le> m" by (simp add: next_nonce_fields)
    with rest that(2) show ?thesis by (simp add: mined_def same)
  qed
  from rest have "nonce b \<le> nonce b'" by (simp add: mined_def next_nonce_fields)
  with rest later show ?thesis by (auto simp: mined_def next_nonce_fields)
qed

lemma mine_block_mined_imp:
  "mine_block H n b = Some b' \<Longrightarrow> hash b = calculate_hash H b \<longrightarrow> mined H n b b'"
proof (rule mine_block.raw_induct
    [where P = "\<lambda>H n b b'. hash b = calculate_hash H b \<longrightarrow> mined H n b b'"])
  fix mine H n b b'
  assume IH: "\<And>H n b b'. mine H n b = Some b' \<Longrightarrow> hash b = calculate_hash H b \<longrightarrow> mined H n b b'"
    and run: "(if py_slice_to (hash b) n \<noteq> target n then mine H n (next_nonce H b) else Some b) = Some b'"
  show "hash b = calculate_hash H b \<longrightarrow> mined H n b b'"
  proof
    assume consistent: "hash b = calculate_hash H b"
    show "mined H n b b'"
    proof (cases "py_slice_to (hash b) n = target n")
      case True
      with run consistent show ?thesis by (simp add: mined_refl)
    next
      case False
      with run have "mine H n (next_nonce H b) = Some b'" by simp
      with IH have "mined H n (next_nonce H b) b'" by (simp add: next_nonce_fields)
      with consistent False show ?thesis by (rule mined_step)
    qed
  qed
qed

lemma mine_block_mined:
  "mine_block H n b = Some b' \<Longrightarrow> hash b = calculate_hash H b \<Longrightarrow> mined H n b b'"
  using mine_block_mined_imp by blast

text \<open>The search returns as soon as some nonce ahead meets the target.\<close>

lemma mine_block_returns:
  "hash b = calculate_hash H b \<Longrightarrow>
   py_slice_to (calculate_hash H (b\<lparr>nonce := nonce b + int k\<rparr>)) n = target n \<Longrightarrow>
   \<exists>b'. mine_block H n b = Some b'"
proof (induction k arbitrary: b)
  case 0
  then show ?case by (subst mine_block.simps) simp
next
  case (Suc k)
  show ?case
  proof (cases "py_slice_to (hash b) n = target n")
    case True
    then show ?thesis by (subst mine_block.simps) simp
  next
    case False
    have "calculate_hash H (next_nonce H b\<lparr>nonce := nonce (next_nonce H b) + int k\<rparr>)
          = calculate_hash H (b\<lparr>nonce := nonce b + int (Suc k)\<rparr>)"
      by (rule calculate_hash_cong) (simp_all add: next_nonce_fields)
    with Suc.prems(2) have "\<exists>b'. mine_block H n (next_nonce H b) = Some b'"
      by (intro Suc.IH) (simp_all add: next_nonce_fields)
    with False show ?thesis by (subst mine_block.simps) simp
  qed
qed

lemma Block_init_fields:
  "index (Block_init H i t d p) = i" "timestamp (Block_init H i t d p) = t"
  "data (Block_init H i t d p) = d" "previous_hash (Block_init H i t d p) = p"
  "nonce (Block_init H i t d p) = 0"
  by (simp_all add: Block_init_def Let_def)

lemma Block_init_hash:
  "hash (Block_init H i t d p) = calculate_hash H (Block_init H i t d p)"
proof -
  have "calculate_hash H (Block_init H i t d p)
        = calculate_hash H \<lparr>index = i, timestamp = t, data = d, previous_hash = p, nonce = 0, hash = []\<rparr>"
    by (rule calculate_hash_cong) (simp_all add: Block_init_def Let_def)
  then show ?thesis by (simp add: Block_init_def Let_def)
qed

section \<open>Validation and the chain invariants\<close>

lemma is_chain_valid_loop_iff:
  "is_chain_valid_loop H c js \<longleftrightarrow>
     (\<forall>i \<in> set js. hash (c ! i) = calculate_hash H (c ! i) \<and>
                    previous_hash (c ! i) = hash (c ! (i - 1)))"
  by (induction js) (auto simp: Let_def)

lemma is_chain_valid_iff:
  "is_chain_valid H bc \<longleftrightarrow>
     (\<forall>i. 0 < i \<and> i < length (chain bc) \<longrightarrow>
        hash (chain bc ! i) = calculate_hash H (chain bc ! i) \<and>
        previous_hash (chain bc ! i) = hash (chain bc ! (i - 1)))"
  by (auto simp: is_chain_valid_def is_chain_valid_loop_iff)

lemma valid_if_consistent_linked:
  "hashes_consistent H (chain bc) \<Longrightarrow> chain_linked (chain bc) \<Longrightarrow> is_chain_valid H bc"
  by (simp add: is_chain_valid_iff hashes_consistent_def chain_linked_def)

lemma chain_linked_snoc:
  assumes "chain_linked c" "c \<noteq> []"
    and "previous_hash b = hash (last c)" "index b = int (length c)"
  shows "chain_linked (c @ [b])"
  unfolding chain_linked_def
proof (intro allI impI)
  fix i assume i: "0 < i \<and> i < length (c @ [b])"
  show "previous_hash ((c @ [b]) ! i) = hash ((c @ [b]) ! (i - 1)) \<and> index ((c @ [b]) ! i) = int i"
  proof (cases "i < length c")
    case True
    with i have "i - 1 < length c" by simp
    with True i assms(1) show ?thesis by (simp add: chain_linked_def nth_append)
  next
    case False
    with i have "i = length c" by simp
    with assms(2-4) show ?thesis by (simp add: nth_append last_conv_nth)
  qed
qed

lemma hashes_consistent_snoc:
  "hashes_consistent H c \<Longrightarrow> hash b = calculate_hash H b \<Longrightarrow> hashes_consistent H (c @ [b])"
  by (auto simp: hashes_consistent_def nth_append less_Suc_eq)

lemma hashes_consistent_set:
  "hashes_consistent H c \<longleftrightarrow> (\<forall>b \<in> set c. hash b = calculate_hash H b)"
  unfolding hashes_consistent_def by (metis in_set_conv_nth)

text \<open>What a returning \<^verbatim>\<open>add_block\<close> has done.\<close>

lemma add_block_Inr:
  assumes "add_block H now d bc = Some (Inr (b, bc'))"
  shows "chain bc \<noteq> []" and "bc' = bc\<lparr>chain := chain bc @ [b]\<rparr>"
    and "mine_block H (difficulty bc) (Block_init H (int (length (chain bc))) now d (hash (last (chain bc)))) = Some b"
    and "mined H (difficulty bc) (Block_init H (int (length (chain bc))) now d (hash (last (chain bc)))) b"
proof -
  from assms show ne: "chain bc \<noteq> []"
    by (auto simp: add_block_def get_latest_block_def split: if_splits)
  from assms ne show "bc' = bc\<lparr>chain := chain bc @ [b]\<rparr>"
    by (auto simp: add_block_def get_latest_block_def split: option.splits)
  from assms ne show m: "mine_block H (difficulty bc) (Block_init H (int (length (chain bc))) now d (hash (last (chain bc)))) = Some b"
    by (auto simp: add_block_def get_latest_block_def split: option.splits)
  show "mined H (difficulty bc) (Block_init H (int (length (chain bc))) now d (hash (last (chain bc)))) b"
    by (rule mine_block_mined[OF m]) (rule Block_init_hash)
qed

lemma add_block_fields:
  assumes "add_block H now d bc = Some (Inr (b, bc'))"
  shows "hash b = calculate_hash H b" "index b = int (length (chain bc))"
    "previous_hash b = hash (last (chain bc))" "data b = d" "timestamp b = now"
    "chain bc' = chain bc @ [b]" "difficulty bc' = difficulty bc"
  using add_block_Inr[OF assms] by (simp_all add: mined_def Block_init_fields)

lemma add_block_preserves:
  assumes "add_block H now d bc = Some (Inr (b, bc'))"
  shows "chain_linked (chain bc) \<Longrightarrow> chain_linked (chain bc')"
    and "hashes_consistent H (chain bc) \<Longrightarrow> hashes_consistent H (chain bc')"
  using add_block_Inr(1)[OF assms] add_block_fields[OF assms]
  by (simp_all add: chain_linked_snoc hashes_consistent_snoc)

lemma add_blocks_preserves:
  "add_blocks H calls bc = Some (Inr bc') \<Longrightarrow>
   (chain_linked (chain bc) \<longrightarrow> chain_linked (chain bc')) \<and>
   (hashes_consistent H (chain bc) \<longrightarrow> hashes_consistent H (chain bc'))"
proof (induction calls arbitrary: bc)
  case Nil
  then show ?case by simp
next
  case (Cons call calls)
  obtain now d where call: "call = (now, d)" by (cases call)
  from Cons.prems call obtain b bc1 where
    step: "add_block H now d bc = Some (Inr (b, bc1))" and rest: "add_blocks H calls bc1 = Some (Inr bc')"
    by (auto split: option.splits sum.splits)
  from Cons.IH[OF rest] add_block_preserves[OF step] show ?case by blast
qed

lemma genesis_Some:
  assumes "VotingBlockchain_init H now = Some bc"
  shows "\<exists>g. chain bc = [g] \<and> difficulty bc = 2 \<and> hash g = calculate_hash H g \<and> index g = 0
            \<and> previous_hash g = ''0'' \<and> timestamp g = now
            \<and> data g = [(''type'', PStr ''genesis''), (''message'', PStr ''Genesis Block - Matdaan Voting System'')]"
proof -
  from assms obtain g where
    m: "mine_block H 2 (Block_init H 0 now [(''type'', PStr ''genesis''), (''message'', PStr ''Genesis Block - Matdaan Voting System'')] ''0'') = Some g"
    and bc: "bc = \<lparr>chain = [g], difficulty = 2\<rparr>"
    by (auto simp: VotingBlockchain_init_def create_genesis_block_def split: option.splits)
  have "mined H 2 (Block_init H 0 now [(''type'', PStr ''genesis''), (''message'', PStr ''Genesis Block - Matdaan Voting System'')] ''0'') g"
    by (rule mine_block_mined[OF m]) (rule Block_init_hash)
  with bc show ?thesis by (simp add: mined_def Block_init_fields)
qed

lemma genesis_invariants:
  assumes "VotingBlockchain_init H now = Some bc"
  shows "chain_linked (chain bc)" "hashes_consistent H (chain bc)" "chain bc \<noteq> []"
  using genesis_Some[OF assms] by (auto simp: chain_linked_def hashes_consistent_def)

section \<open>The example session, evaluated\<close>

lemmas eval_defs =
  calculate_hash_def block_string_def json_of_dict_def json_string_def json_char_def
  py_str_int_def dec.simps utf8_def utf8_char_def sha256_sample_def sample_digests_def
  Block_init_def next_nonce_def py_slice_to_def target_def Let_def

lemma target_2: "target 2 = ''00''"
  by (simp add: target_def numeral_2_eq_2)

lemma sample_genesis_block:
  "Block_init sha256_sample 0 ''2024-01-15 10:30:00.000010''
     [(''type'', PStr ''genesis''), (''message'', PStr ''Genesis Block - Matdaan Voting System'')] ''0''
   = genesis_sample"
  by (simp add: eval_defs genesis_sample_def)

lemma sample_genesis_sealed: "py_slice_to (hash genesis_sample) 2 = target 2"
  by (simp add: genesis_sample_def py_slice_to_def target_2)

lemma sample_init: "VotingBlockchain_init sha256_sample ''2024-01-15 10:30:00.000010'' = Some chain0_sample"
  by (simp add: VotingBlockchain_init_def create_genesis_block_def sample_genesis_block
      mine_block.simps [of _ _ genesis_sample] sample_genesis_sealed chain0_sample_def)


lemma sample_vote_data:
  "vote_data_of sha256_sample ''2024-01-15 10:31:07.000100'' ''0123456789abcdef0123456789abcdef''
     ''voterA'' (PInt 1) (PInt 1) = data vote_sample"
  by (simp add: vote_data_of_def vote_sample_def eval_defs)

lemma sample_vote_block_0:
  "Block_init sha256_sample 1 ''2024-01-15 10:31:07.000664'' (data vote_sample) (hash genesis_sample)
   = vote_sample\<lparr>nonce := 0, hash := ''be31ff5d29dc1bb00184fb683caef996095a8ae2fd4408a073edb7bd63802d8e''\<rparr>"
  by (simp add: eval_defs vote_sample_def genesis_sample_def)

lemma sample_vote_block_1:
  "next_nonce sha256_sample
     (vote_sample\<lparr>nonce := 0, hash := ''be31ff5d29dc1bb00184fb683caef996095a8ae2fd4408a073edb7bd63802d8e''\<rparr>)
   = vote_sample"
  by (simp add: eval_defs vote_sample_def)

lemma sample_vote_mined:
  "mine_block sha256_sample 2
     (Block_init sha256_sample 1 ''2024-01-15 10:31:07.000664'' (data vote_sample) (hash genesis_sample))
   = Some vote_sample"
proof -
  have "mine_block sha256_sample 2 vote_sample = Some vote_sample"
    by (subst mine_block.simps) (simp add: vote_sample_def py_slice_to_def target_2)
  then have "mine_block sha256_sample 2
     (vote_sample\<lparr>nonce := 0, hash := ''be31ff5d29dc1bb00184fb683caef996095a8ae2fd4408a073edb7bd63802d8e''\<rparr>) = Some vote_sample"
    by (subst mine_block.simps) (simp add: sample_vote_block_1 py_slice_to_def target_2)
  then show ?thesis by (simp add: sample_vote_block_0)
qed

lemma sample_add_block:
  "add_block sha256_sample ''2024-01-15 10:31:07.000664'' (data vote_sample) chain0_sample
   = Some (Inr (vote_sample, chain1_sample))"
  using sample_vote_mined
  by (simp add: add_block_def get_latest_block_def chain0_sample_def chain1_sample_def)

lemma sample_cast_vote:
  "cast_vote_to_blockchain sha256_sample ''2024-01-15 10:31:07.000100''
     ''0123456789abcdef0123456789abcdef'' ''2024-01-15 10:31:07.000664''
     (PStr ''voterA'') (PInt 1) (PInt 1) \<lparr>blockchain = chain0_sample\<rparr>
   = Some (Inr (\<lparr>success = True,
                  block_hash = ''006c3a066d5e778aff08c434c27eb332e4d0f0cbf224b1a4eefde43cfa1667f1'',
                  transaction_hash = ''0123456789abcdef0123456789abcdef'',
                  block_index = 1,
                  receipt_timestamp = ''2024-01-15 10:31:07.000664''\<rparr>,
                \<lparr>blockchain = chain1_sample\<rparr>))"
proof -
  have enc: "utf8 ''voterA'' = ''voterA''" by (simp add: utf8_def utf8_char_def)
  show ?thesis
    by (simp add: cast_vote_to_blockchain_def enc sample_vote_data sample_add_block)
       (simp add: vote_sample_def)
qed

section \<open>Requests and what they change\<close>

lemma sample_add_blocks:
  "add_blocks sha256_sample [(''2024-01-15 10:31:07.000664'', data vote_sample)] chain0_sample
   = Some (Inr chain1_sample)"
  by (simp add: sample_add_block)

lemma cast_vote_Inr:
  assumes "cast_vote_to_blockchain H now_vote token now_block v e c svc = Some (Inr (r, svc'))"
  shows "\<exists>vb b bc'. py_encode v = Inr vb \<and>
           add_block H now_block (vote_data_of H now_vote token vb e c) (blockchain svc) = Some (Inr (b, bc')) \<and>
           svc' = svc\<lparr>blockchain := bc'\<rparr> \<and>
           r = \<lparr>success = True, block_hash = hash b, transaction_hash = token,
                block_index = index b, receipt_timestamp = timestamp b\<rparr>"
  using assms
  by (auto simp: cast_vote_to_blockchain_def Let_def split: sum.splits option.splits)

lemma perform_chain:
  assumes "perform H r svc = Some (Inr (resp, svc'))"
  shows "svc' = svc \<or>
         (\<exists>now d b bc'. add_block H now d (blockchain svc) = Some (Inr (b, bc')) \<and> svc' = svc\<lparr>blockchain := bc'\<rparr>
             \<and> dict_get d ''type'' = PStr ''vote'' \<and> (\<exists>x. dict_get d ''candidate_hash'' = PStr (H x)))"
proof (cases r)
  case (CastVote now_vote token now_block v e c)
  with assms obtain rc where
    "cast_vote_to_blockchain H now_vote token now_block v e c svc = Some (Inr (rc, svc'))"
    by (auto split: option.splits sum.splits)
  from cast_vote_Inr[OF this] obtain vb b bc' where
    step: "add_block H now_block (vote_data_of H now_vote token vb e c) (blockchain svc) = Some (Inr (b, bc'))"
    and svc': "svc' = svc\<lparr>blockchain := bc'\<rparr>"
    by blast
  have "dict_get (vote_data_of H now_vote token vb e c) ''type'' = PStr ''vote''"
    "dict_get (vote_data_of H now_vote token vb e c) ''candidate_hash'' = PStr (H (utf8 (py_str c)))"
    by (simp_all add: vote_data_of_def dict_get_def)
  with step svc' show ?thesis by blast
qed (use assms in \<open>auto split: sum.splits\<close>)

lemma perform_preserves:
  assumes "perform H r svc = Some (Inr (resp, svc'))"
  shows "chain_linked (chain (blockchain svc)) \<Longrightarrow> chain_linked (chain (blockchain svc'))"
    and "hashes_consistent H (chain (blockchain svc)) \<Longrightarrow> hashes_consistent H (chain (blockchain svc'))"
  using perform_chain[OF assms] add_block_preserves by auto

lemma sample_perform:
  "perform sha256_sample
     (CastVote ''2024-01-15 10:31:07.000100'' ''0123456789abcdef0123456789abcdef''
        ''2024-01-15 10:31:07.000664'' (PStr ''voterA'') (PInt 1) (PInt 1))
     \<lparr>blockchain = chain0_sample\<rparr>
   = Some (Inr (Receipt \<lparr>success = True,
                  block_hash = ''006c3a066d5e778aff08c434c27eb332e4d0f0cbf224b1a4eefde43cfa1667f1'',
                  transaction_hash = ''0123456789abcdef0123456789abcdef'',
                  block_index = 1,
                  receipt_timestamp = ''2024-01-15 10:31:07.000664''\<rparr>,
                \<lparr>blockchain = chain1_sample\<rparr>))"
  by (simp add: sample_cast_vote)

lemma sample_chain0_linked: "chain_linked (chain chain0_sample)"
  by (simp add: chain_linked_def chain0_sample_def)

section \<open>The hash rule and the target\<close>

lemma block_string_canonical: "block_string b = canonical_json b"
  by (simp add: block_string_def canonical_json_def canonical_dict_def json_of_dict_def
      json_string_def json_char_def map_prod_def comp_def case_prod_unfold)

lemma py_slice_to_target:
  assumes "py_slice_to s n = target n" "0 \<le> n"
  shows "nat n \<le> length s \<and> take (nat n) s = replicate (nat n) CHR ''0''"
proof -
  from assms have eq: "take (nat n) s = replicate (nat n) CHR ''0''"
    by (simp add: py_slice_to_def target_def)
  then have "length (take (nat n) s) = nat n" by simp
  then have "nat n \<le> length s" by simp
  with eq show ?thesis by simp
qed

section \<open>A vote cast with missing fields\<close>

lemma sample_unchecked_data:
  "vote_data_of sha256_sample ''2024-01-15 10:32:11.000200'' ''fedcba9876543210fedcba9876543210''
     ''voterA'' PNone PNone = data unchecked_vote_sample"
  by (simp add: vote_data_of_def unchecked_vote_sample_def eval_defs)

lemma sample_unchecked_block:
  "Block_init sha256_sample 1 ''2024-01-15 10:32:11.000035'' (data unchecked_vote_sample)
     (hash genesis_sample) = unchecked_vote_sample"
  by (simp add: eval_defs unchecked_vote_sample_def genesis_sample_def)

lemma sample_unchecked_add:
  "add_block sha256_sample ''2024-01-15 10:32:11.000035'' (data unchecked_vote_sample) chain0_sample
   = Some (Inr (unchecked_vote_sample,
        \<lparr>chain = [genesis_sample, unchecked_vote_sample], difficulty = 2\<rparr>))"
proof -
  have "mine_block sha256_sample 2 unchecked_vote_sample = Some unchecked_vote_sample"
    by (subst mine_block.simps) (simp add: unchecked_vote_sample_def py_slice_to_def target_2)
  then show ?thesis
    by (simp add: add_block_def get_latest_block_def chain0_sample_def sample_unchecked_block)
qed

lemma small_int_convertible: "\<bar>i\<bar> < 10 \<Longrightarrow> text_convertible (PInt i)"
proof -
  have "(10::int) \<le> 10 ^ int_max_str_digits"
    by (rule self_le_power) (simp_all add: int_max_str_digits_def)
  then show "\<bar>i\<bar> < 10 \<Longrightarrow> text_convertible (PInt i)" by simp
qed

lemma py_encode_not_str: "(\<forall>s. v \<noteq> PStr s) \<Longrightarrow> py_encode v = Inl AttributeError"
  by (cases v) simp_all

section \<open>Built chains and lookups\<close>

lemma built_chain_invariants:
  assumes "VotingBlockchain_init H now0 = Some bc0" "add_blocks H calls bc0 = Some (Inr bc)"
  shows "hashes_consistent H (chain bc)" "chain_linked (chain bc)"
  using genesis_invariants[OF assms(1)] add_blocks_preserves[OF assms(2)] by simp_all

lemma sample_chain1_valid: "is_chain_valid sha256_sample chain1_sample"
  using built_chain_invariants [OF sample_init sample_add_blocks]
  by (rule valid_if_consistent_linked)

lemma sample_data_lookups:
  "dict_get (data vote_sample) ''type'' = PStr ''vote''"
  "dict_get (data vote_sample) ''election_id'' = PInt 1"
  "dict_get (data vote_sample) ''voter_hash'' = PStr (sha256_sample (utf8 ''voterA''))"
  "dict_get (data genesis_sample) ''type'' = PStr ''genesis''"
  by (simp_all add: vote_sample_def genesis_sample_def dict_get_def eval_defs)

lemma has_voter_voted_loop_iff:
  "has_voter_voted_loop bs h \<longleftrightarrow> (\<exists>b \<in> set bs. dict_get (data b) ''voter_hash'' = h)"
  by (induction bs) auto

lemma get_block_by_hash_loop_find:
  "get_block_by_hash_loop c bh = find (\<lambda>b. hash b = bh) c"
  by (induction c) auto

section \<open>The tally\<close>

lemma sum_dict_incr: "sum_list (map snd (dict_incr vc k)) = sum_list (map snd vc) + 1"
  by (induction vc k rule: dict_incr.induct) auto

lemma sum_count_votes:
  "sum_list (map snd (count_votes bs vc)) =
     sum_list (map snd vc)
     + int (length (filter (\<lambda>b. py_truthy (dict_get (data b) ''candidate_hash'')) bs))"
  by (induction bs arbitrary: vc) (auto simp: Let_def sum_dict_incr)

lemma tally_general:
  "total_votes (get_election_results H svc e)
     = int (length (filter (is_vote_for e) (chain (blockchain svc))))"
  "sum_list (map snd (vote_distribution (get_election_results H svc e)))
     = int (length (filter (\<lambda>b. is_vote_for e b \<and> py_truthy (dict_get (data b) ''candidate_hash''))
                      (chain (blockchain svc))))"
  by (simp_all add: get_election_results_def Let_def get_blocks_by_election_def sum_count_votes
      conj_commute)

lemma service_init_chain:
  "BlockchainService_init H now0 = Some svc0 \<Longrightarrow> VotingBlockchain_init H now0 = Some (blockchain svc0)"
  by (auto simp: BlockchainService_init_def split: option.splits)

lemma votes_carry_candidate_genesis:
  assumes "VotingBlockchain_init H now0 = Some bc"
  shows "votes_carry_candidate (chain bc)"
  using genesis_Some[OF assms] by (auto simp: votes_carry_candidate_def dict_get_def)

lemma perform_votes_carry_candidate:
  assumes "perform H r svc = Some (Inr (resp, svc'))" "\<forall>x. H x \<noteq> []"
    and "votes_carry_candidate (chain (blockchain svc))"
  shows "votes_carry_candidate (chain (blockchain svc'))"
proof -
  from perform_chain[OF assms(1)] show ?thesis
  proof
    assume "svc' = svc"
    with assms(3) show ?thesis by simp
  next
    assume "\<exists>now d b bc'. add_block H now d (blockchain svc) = Some (Inr (b, bc')) \<and>
       svc' = svc\<lparr>blockchain := bc'\<rparr> \<and> dict_get d ''type'' = PStr ''vote'' \<and>
       (\<exists>x. dict_get d ''candidate_hash'' = PStr (H x))"
    then obtain now d b bc' x where
      step: "add_block H now d (blockchain svc) = Some (Inr (b, bc'))"
      and svc': "svc' = svc\<lparr>blockchain := bc'\<rparr>"
      and cand: "dict_get d ''candidate_hash'' = PStr (H x)"
      by blast
    from add_block_fields(4,6)[OF step] have "data b = d" "chain bc' = chain (blockchain svc) @ [b]"
      by simp_all
    with svc' cand assms(2,3) show ?thesis
      by (auto simp: votes_carry_candidate_def)
  qed
qed

lemma serve_votes_carry_candidate:
  "serve H reqs svc = Some svc' \<Longrightarrow> \<forall>x. H x \<noteq> [] \<Longrightarrow>
   votes_carry_candidate (chain (blockchain svc)) \<Longrightarrow>
   votes_carry_candidate (chain (blockchain svc'))"
proof (induction reqs arbitrary: svc)
  case Nil
  then show ?case by simp
next
  case (Cons r reqs)
  show ?case
  proof (cases "perform H r svc")
    case None
    with Cons.prems(1) show ?thesis by simp
  next
    case (Some out)
    show ?thesis
    proof (cases out)
      case (Inl err)
      with Some Cons.prems have "serve H reqs svc = Some svc'" by simp
      with Cons.IH Cons.prems(2,3) show ?thesis by blast
    next
      case (Inr pair)
      obtain resp svc1 where pair: "pair = (resp, svc1)" by (cases pair)
      with Some Inr Cons.prems have rest: "serve H reqs svc1 = Some svc'" by simp
      from Some Inr pair have "perform H r svc = Some (Inr (resp, svc1))" by simp
      with Cons.prems(2,3) have "votes_carry_candidate (chain (blockchain svc1))"
        using perform_votes_carry_candidate by blast
      with Cons.IH rest Cons.prems(2) show ?thesis by blast
    qed
  qed
qed

lemma sha256_sample_length: "length (sha256_sample x) = 64"
proof (cases "map_of sample_digests x")
  case None
  then show ?thesis by (simp add: sha256_sample_def)
next
  case (Some h)
  then have "(x, h) \<in> set sample_digests" by (rule map_of_SomeD)
  then have "length h = 64" by (auto simp: sample_digests_def)
  with Some show ?thesis by (simp add: sha256_sample_def)
qed

lemma sha256_sample_nonempty: "\<forall>x. sha256_sample x \<noteq> []"
proof
  fix x
  have "length (sha256_sample x) = 64" by (rule sha256_sample_length)
  then show "sha256_sample x \<noteq> []" by auto
qed

lemma sample_service_init:
  "BlockchainService_init sha256_sample ''2024-01-15 10:30:00.000010'' = Some \<lparr>blockchain = chain0_sample\<rparr>"
  by (simp add: BlockchainService_init_def sample_init)

lemma sample_serve:
  "serve sha256_sample
     [CastVote ''2024-01-15 10:31:07.000100'' ''0123456789abcdef0123456789abcdef''
        ''2024-01-15 10:31:07.000664'' (PStr ''voterA'') (PInt 1) (PInt 1)]
     \<lparr>blockchain = chain0_sample\<rparr>
   = Some \<lparr>blockchain = chain1_sample\<rparr>"
  by (simp add: sample_cast_vote)

lemma is_chain_valid_first_fields:
  assumes "hash g' = hash g"
  shows "is_chain_valid H \<lparr>chain = g' # rest, difficulty = k\<rparr>
       = is_chain_valid H \<lparr>chain = g # rest, difficulty = k\<rparr>"
proof -
  have "(g' # rest) ! i = (g # rest) ! i" if "0 < i" for i
    using that by (cases i) simp_all
  moreover have "hash ((g' # rest) ! (i - 1)) = hash ((g # rest) ! (i - 1))" for i
    using assms by (cases "i - 1") simp_all
  ultimately show ?thesis
    by (simp add: is_chain_valid_iff)
qed

section \<open>The claims\<close>

text \<open>
  Claim C1. A chain built by the constructor and then by any sequence of
  \<^verbatim>\<open>add_block\<close> calls that return passes \<^verbatim>\<open>is_chain_valid\<close>.
\<close>

theorem validate_after_appends:
  assumes "VotingBlockchain_init H now0 = Some bc0"
    and "add_blocks H calls bc0 = Some (Inr bc)"
  shows "is_chain_valid H bc"
proof -
  from genesis_invariants[OF assms(1)] add_blocks_preserves[OF assms(2)]
  have "hashes_consistent H (chain bc)" "chain_linked (chain bc)" by simp_all
  then show ?thesis by (rule valid_if_consistent_linked)
qed

theorem validate_after_appends_witness:
  "VotingBlockchain_init sha256_sample ''2024-01-15 10:30:00.000010'' = Some chain0_sample \<and>
   add_blocks sha256_sample [(''2024-01-15 10:31:07.000664'', data vote_sample)] chain0_sample
     = Some (Inr chain1_sample) \<and>
   is_chain_valid sha256_sample chain1_sample"
  using validate_after_appends [OF sample_init sample_add_blocks] sample_init sample_add_blocks
  by simp

text \<open>
  Claim C2. In every chain built by the constructor and any sequence of
  \<^verbatim>\<open>add_block\<close> calls, each block after the first names the hash of its predecessor
  and carries its own position as index; and every operation of the service keeps this
  linkage.
\<close>

theorem chain_linkage_invariant:
  "(VotingBlockchain_init H now0 = Some bc0 \<longrightarrow> add_blocks H calls bc0 = Some (Inr bc) \<longrightarrow>
      (\<forall>i. 0 < i \<and> i < length (chain bc) \<longrightarrow>
          previous_hash (chain bc ! i) = hash (chain bc ! (i - 1)) \<and> index (chain bc ! i) = int i)) \<and>
   (chain_linked (chain (blockchain svc)) \<longrightarrow> perform H r svc = Some (Inr (resp, svc')) \<longrightarrow>
      chain_linked (chain (blockchain svc')))"
proof (intro conjI impI)
  assume "VotingBlockchain_init H now0 = Some bc0" "add_blocks H calls bc0 = Some (Inr bc)"
  with genesis_invariants(1) add_blocks_preserves have "chain_linked (chain bc)" by blast
  then show "\<forall>i. 0 < i \<and> i < length (chain bc) \<longrightarrow>
          previous_hash (chain bc ! i) = hash (chain bc ! (i - 1)) \<and> index (chain bc ! i) = int i"
    by (simp add: chain_linked_def)
next
  assume "chain_linked (chain (blockchain svc))" "perform H r svc = Some (Inr (resp, svc'))"
  then show "chain_linked (chain (blockchain svc'))" using perform_preserves(1) by blast
qed

theorem chain_linkage_invariant_witness:
  "VotingBlockchain_init sha256_sample ''2024-01-15 10:30:00.000010'' = Some chain0_sample \<and>
   add_blocks sha256_sample [(''2024-01-15 10:31:07.000664'', data vote_sample)] chain0_sample
     = Some (Inr chain1_sample) \<and>
   chain_linked (chain chain0_sample) \<and>
   perform sha256_sample
     (CastVote ''2024-01-15 10:31:07.000100'' ''0123456789abcdef0123456789abcdef''
        ''2024-01-15 10:31:07.000664'' (PStr ''voterA'') (PInt 1) (PInt 1))
     \<lparr>blockchain = chain0_sample\<rparr>
   = Some (Inr (Receipt \<lparr>success = True,
                  block_hash = ''006c3a066d5e778aff08c434c27eb332e4d0f0cbf224b1a4eefde43cfa1667f1'',
                  transaction_hash = ''0123456789abcdef0123456789abcdef'',
                  block_index = 1,
                  receipt_timestamp = ''2024-01-15 10:31:07.000664''\<rparr>,
                \<lparr>blockchain = chain1_sample\<rparr>)) \<and>
   previous_hash (chain chain1_sample ! 1) = hash (chain chain1_sample ! 0) \<and>
   index (chain chain1_sample ! 1) = 1 \<and>
   chain_linked (chain chain1_sample)"
proof -
  have built: "\<forall>i. 0 < i \<and> i < length (chain chain1_sample) \<longrightarrow>
      previous_hash (chain chain1_sample ! i) = hash (chain chain1_sample ! (i - 1)) \<and>
      index (chain chain1_sample ! i) = int i"
    by (rule chain_linkage_invariant
        [THEN conjunct1, THEN mp, THEN mp, OF sample_init sample_add_blocks])
  have kept: "chain_linked (chain (blockchain \<lparr>blockchain = chain1_sample\<rparr>))"
    by (rule chain_linkage_invariant
        [THEN conjunct2, THEN mp, THEN mp, OF _ sample_perform])
      (simp add: sample_chain0_linked)
  then have kept': "chain_linked (chain chain1_sample)" by simp
  have "(1::nat) < length (chain chain1_sample)" by (simp add: chain1_sample_def)
  with built have second:
    "previous_hash (chain chain1_sample ! 1) = hash (chain chain1_sample ! (1 - 1)) \<and>
     index (chain chain1_sample ! 1) = int 1"
    by blast
  then have link: "previous_hash (chain chain1_sample ! 1) = hash (chain chain1_sample ! 0)"
    and pos: "index (chain chain1_sample ! 1) = 1"
    by simp_all
  show ?thesis
    by (intro conjI)
      (rule sample_init sample_add_blocks sample_chain0_linked sample_perform link pos kept')+
qed

text \<open>
  Claim C3. The stored hash of every block of a chain built by the constructor and
  \<^verbatim>\<open>add_block\<close> is the hex digest of the canonical JSON text of its five other
  fields, keys in sorted order, and \<^verbatim>\<open>calculate_hash\<close> on the stored fields gives the
  stored hash again.
\<close>

theorem stored_hash_is_digest:
  assumes "VotingBlockchain_init H now0 = Some bc0"
    and "add_blocks H calls bc0 = Some (Inr bc)"
  shows "\<forall>b \<in> set (chain bc). hash b = H (utf8 (canonical_json b)) \<and> hash b = calculate_hash H b"
proof -
  from genesis_invariants(2)[OF assms(1)] add_blocks_preserves[OF assms(2)]
  have "hashes_consistent H (chain bc)" by simp
  then show ?thesis
    by (simp add: hashes_consistent_set calculate_hash_def block_string_canonical)
qed

theorem stored_hash_is_digest_witness:
  "VotingBlockchain_init sha256_sample ''2024-01-15 10:30:00.000010'' = Some chain0_sample \<and>
   add_blocks sha256_sample [(''2024-01-15 10:31:07.000664'', data vote_sample)] chain0_sample
     = Some (Inr chain1_sample) \<and>
   hash vote_sample = sha256_sample (utf8 (canonical_json vote_sample)) \<and>
   hash vote_sample = calculate_hash sha256_sample vote_sample \<and>
   hash genesis_sample = sha256_sample (utf8 (canonical_json genesis_sample))"
proof -
  note all = stored_hash_is_digest [OF sample_init sample_add_blocks]
  have "vote_sample \<in> set (chain chain1_sample)" "genesis_sample \<in> set (chain chain1_sample)"
    by (simp_all add: chain1_sample_def)
  with all have
    "hash vote_sample = sha256_sample (utf8 (canonical_json vote_sample))"
    "hash vote_sample = calculate_hash sha256_sample vote_sample"
    "hash genesis_sample = sha256_sample (utf8 (canonical_json genesis_sample))"
    by blast+
  with sample_init sample_add_blocks show ?thesis by blast
qed

text \<open>
  Claim C4. When \<^verbatim>\<open>mine_block\<close> returns on a block as the constructor built it, the
  hash begins with the required zeros and is the digest of the block's fields; the fields
  before the nonce are as given, the nonce is the first one from 0 whose digest meets the
  target, and mining a block built again from the same fields gives the same block.
\<close>

theorem mine_block_seals:
  assumes "mine_block H n (Block_init H i t d p) = Some b'"
  shows "py_slice_to (hash b') n = target n \<and>
         (0 \<le> n \<longrightarrow> nat n \<le> length (hash b') \<and> take (nat n) (hash b') = replicate (nat n) CHR ''0'') \<and>
         hash b' = calculate_hash H b' \<and>
         index b' = i \<and> timestamp b' = t \<and> data b' = d \<and> previous_hash b' = p \<and>
         0 \<le> nonce b' \<and>
         (\<forall>m. 0 \<le> m \<and> m < nonce b' \<longrightarrow>
            py_slice_to (calculate_hash H (Block_init H i t d p\<lparr>nonce := m\<rparr>)) n \<noteq> target n) \<and>
         mine_block H n (Block_init H (index b') (timestamp b') (data b') (previous_hash b')) = Some b'"
proof -
  have m: "mined H n (Block_init H i t d p) b'"
    by (rule mine_block_mined[OF assms]) (rule Block_init_hash)
  then have sealed: "py_slice_to (hash b') n = target n"
    unfolding mined_def by blast
  from m have fields: "index b' = i" "timestamp b' = t" "data b' = d" "previous_hash b' = p"
    unfolding mined_def Block_init_fields by blast+
  from m have "hash b' = calculate_hash H b'" "0 \<le> nonce b'"
    "\<forall>m. 0 \<le> m \<and> m < nonce b' \<longrightarrow>
        py_slice_to (calculate_hash H (Block_init H i t d p\<lparr>nonce := m\<rparr>)) n \<noteq> target n"
    unfolding mined_def Block_init_fields by blast+
  moreover from sealed have
    "0 \<le> n \<longrightarrow> nat n \<le> length (hash b') \<and> take (nat n) (hash b') = replicate (nat n) CHR ''0''"
    using py_slice_to_target by blast
  moreover from assms fields have
    "mine_block H n (Block_init H (index b') (timestamp b') (data b') (previous_hash b')) = Some b'"
    by simp
  ultimately show ?thesis using sealed fields by blast
qed

theorem mine_block_seals_witness:
  "mine_block sha256_sample 2
     (Block_init sha256_sample 1 ''2024-01-15 10:31:07.000664'' (data vote_sample) (hash genesis_sample))
     = Some vote_sample \<and>
   take 2 (hash vote_sample) = ''00'' \<and>
   hash vote_sample = calculate_hash sha256_sample vote_sample \<and>
   nonce vote_sample = 1 \<and>
   py_slice_to (calculate_hash sha256_sample
       (Block_init sha256_sample 1 ''2024-01-15 10:31:07.000664'' (data vote_sample) (hash genesis_sample)
          \<lparr>nonce := 0\<rparr>)) 2 \<noteq> target 2 \<and>
   mine_block sha256_sample 2
     (Block_init sha256_sample (index vote_sample) (timestamp vote_sample) (data vote_sample)
        (previous_hash vote_sample))
     = Some vote_sample"
proof -
  note all = mine_block_seals [OF sample_vote_mined]
  have n1: "nonce vote_sample = 1" by (simp add: vote_sample_def)
  from all have "(0::int) \<le> 2 \<longrightarrow> nat 2 \<le> length (hash vote_sample) \<and>
      take (nat 2) (hash vote_sample) = replicate (nat 2) CHR ''0''"
    by blast
  then have "take (nat 2) (hash vote_sample) = replicate (nat 2) CHR ''0''" by simp
  moreover have "replicate (nat 2) CHR ''0'' = ''00''" by (simp add: numeral_2_eq_2)
  moreover have "nat 2 = 2" by simp
  ultimately have a: "take 2 (hash vote_sample) = ''00''" by simp
  from all have b: "hash vote_sample = calculate_hash sha256_sample vote_sample" by blast
  from all have "\<forall>m. 0 \<le> m \<and> m < nonce vote_sample \<longrightarrow>
      py_slice_to (calculate_hash sha256_sample
       (Block_init sha256_sample 1 ''2024-01-15 10:31:07.000664'' (data vote_sample) (hash genesis_sample)
          \<lparr>nonce := m\<rparr>)) 2 \<noteq> target 2"
    by blast
  moreover have "(0::int) \<le> 0 \<and> 0 < nonce vote_sample" by (simp add: n1)
  ultimately have c: "py_slice_to (calculate_hash sha256_sample
       (Block_init sha256_sample 1 ''2024-01-15 10:31:07.000664'' (data vote_sample) (hash genesis_sample)
          \<lparr>nonce := 0\<rparr>)) 2 \<noteq> target 2"
    by blast
  from all have d: "mine_block sha256_sample 2
     (Block_init sha256_sample (index vote_sample) (timestamp vote_sample) (data vote_sample)
        (previous_hash vote_sample)) = Some vote_sample"
    by blast
  from sample_vote_mined a b n1 c d show ?thesis by blast
qed

text \<open>
  Claim C5 says that a \<^verbatim>\<open>cast_vote\<close> call with missing or invalid fields is rejected
  with an explicit outcome and leaves the chain as it was. The service checks no field:
  the vote of \<^verbatim>\<open>voterA\<close> with \<^verbatim>\<open>None\<close> for the election and for the candidate is
  recorded as block 1 and reported as a success.
\<close>

theorem cast_vote_missing_fields_accepted:
  "cast_vote_to_blockchain sha256_sample ''2024-01-15 10:32:11.000200''
     ''fedcba9876543210fedcba9876543210'' ''2024-01-15 10:32:11.000035''
     (PStr ''voterA'') PNone PNone \<lparr>blockchain = chain0_sample\<rparr>
   = Some (Inr (\<lparr>success = True,
                  block_hash = ''006c4c481a8e8a9a4aea000a4398fe3dff2253891da7b7e5bc2fadc7d7ddd498'',
                  transaction_hash = ''fedcba9876543210fedcba9876543210'',
                  block_index = 1,
                  receipt_timestamp = ''2024-01-15 10:32:11.000035''\<rparr>,
                \<lparr>blockchain = \<lparr>chain = [genesis_sample, unchecked_vote_sample], difficulty = 2\<rparr>\<rparr>))"
proof -
  have enc: "utf8 ''voterA'' = ''voterA''" by (simp add: utf8_def utf8_char_def)
  show ?thesis
    by (simp add: cast_vote_to_blockchain_def enc sample_unchecked_data sample_unchecked_add)
       (simp add: unchecked_vote_sample_def)
qed

text \<open>
  Claim C5, amended. A call whose \<^verbatim>\<open>voter_id\<close> is missing or not a string
  (\<^verbatim>\<open>None\<close> or an integer) stops at \<^verbatim>\<open>voter_id.encode()\<close> with an
  \<^verbatim>\<open>AttributeError\<close>, raised before any block is built, and the service is left as it
  was; the failure is an exception, not an outcome value. A missing \<^verbatim>\<open>election_id\<close> or
  \<^verbatim>\<open>candidate_id\<close> is not rejected: when \<^verbatim>\<open>voter_id\<close> is a string and the other two
  are each \<^verbatim>\<open>None\<close>, a string or an integer of at most 4300 digits, a call that returns
  has appended exactly one block and reports success.
\<close>

theorem cast_vote_checks_nothing:
  "((\<forall>s. voter_id \<noteq> PStr s) \<longrightarrow>
      cast_vote_to_blockchain H now_vote token now_block voter_id e c svc = Some (Inl AttributeError) \<and>
      serve H [CastVote now_vote token now_block voter_id e c] svc = Some svc) \<and>
   (voter_id = PStr s \<longrightarrow> text_convertible e \<longrightarrow> text_convertible c \<longrightarrow>
    chain (blockchain svc) \<noteq> [] \<longrightarrow>
      cast_vote_to_blockchain H now_vote token now_block voter_id e c svc = Some out \<longrightarrow>
      (\<exists>r b. out = Inr (r, svc\<lparr>blockchain := (blockchain svc)\<lparr>chain := chain (blockchain svc) @ [b]\<rparr>\<rparr>) \<and>
             success r \<and> block_hash r = hash b \<and>
             dict_get (data b) ''election_id'' = e \<and>
             dict_get (data b) ''candidate_hash'' = PStr (H (utf8 (py_str c)))))"
proof (intro conjI impI)
  assume "\<forall>s. voter_id \<noteq> PStr s"
  then show raised:
    "cast_vote_to_blockchain H now_vote token now_block voter_id e c svc = Some (Inl AttributeError)"
    by (simp add: cast_vote_to_blockchain_def py_encode_not_str)
  then show "serve H [CastVote now_vote token now_block voter_id e c] svc = Some svc"
    by simp
next
  assume v: "voter_id = PStr s" and ne: "chain (blockchain svc) \<noteq> []"
    and run: "cast_vote_to_blockchain H now_vote token now_block voter_id e c svc = Some out"
  let ?d = "vote_data_of H now_vote token (utf8 s) e c"
  from run v ne obtain b bc' where
    step: "add_block H now_block ?d (blockchain svc) = Some (Inr (b, bc'))"
    and out: "out = Inr (\<lparr>success = True, block_hash = hash b, transaction_hash = token,
                block_index = index b, receipt_timestamp = timestamp b\<rparr>, svc\<lparr>blockchain := bc'\<rparr>)"
    by (auto simp: cast_vote_to_blockchain_def Let_def add_block_def get_latest_block_def
        split: option.splits)
  from add_block_Inr(2)[OF step] add_block_fields(4)[OF step]
  have "bc' = (blockchain svc)\<lparr>chain := chain (blockchain svc) @ [b]\<rparr>" "data b = ?d" by simp_all
  moreover have "dict_get ?d ''election_id'' = e"
    "dict_get ?d ''candidate_hash'' = PStr (H (utf8 (py_str c)))"
    by (simp_all add: vote_data_of_def dict_get_def)
  ultimately show "\<exists>r b. out = Inr (r, svc\<lparr>blockchain := (blockchain svc)\<lparr>chain := chain (blockchain svc) @ [b]\<rparr>\<rparr>) \<and>
             success r \<and> block_hash r = hash b \<and>
             dict_get (data b) ''election_id'' = e \<and>
             dict_get (data b) ''candidate_hash'' = PStr (H (utf8 (py_str c)))"
    using out by auto
qed

theorem cast_vote_checks_nothing_witness:
  "cast_vote_to_blockchain sha256_sample ''2024-01-15 10:31:07.000100''
     ''0123456789abcdef0123456789abcdef'' ''2024-01-15 10:31:07.000664''
     PNone (PInt 1) (PInt 1) \<lparr>blockchain = chain0_sample\<rparr> = Some (Inl AttributeError) \<and>
   serve sha256_sample
     [CastVote ''2024-01-15 10:31:07.000100'' ''0123456789abcdef0123456789abcdef''
        ''2024-01-15 10:31:07.000664'' PNone (PInt 1) (PInt 1)]
     \<lparr>blockchain = chain0_sample\<rparr> = Some \<lparr>blockchain = chain0_sample\<rparr> \<and>
   text_convertible (PInt 1) \<and>
   chain (blockchain \<lparr>blockchain = chain0_sample\<rparr>) \<noteq> [] \<and>
   cast_vote_to_blockchain sha256_sample ''2024-01-15 10:31:07.000100''
     ''0123456789abcdef0123456789abcdef'' ''2024-01-15 10:31:07.000664''
     (PStr ''voterA'') (PInt 1) (PInt 1) \<lparr>blockchain = chain0_sample\<rparr>
   = Some (Inr (\<lparr>success = True,
                  block_hash = ''006c3a066d5e778aff08c434c27eb332e4d0f0cbf224b1a4eefde43cfa1667f1'',
                  transaction_hash = ''0123456789abcdef0123456789abcdef'',
                  block_index = 1,
                  receipt_timestamp = ''2024-01-15 10:31:07.000664''\<rparr>,
                \<lparr>blockchain = chain1_sample\<rparr>)) \<and>
   (\<exists>r b. Inr (\<lparr>success = True,
                  block_hash = ''006c3a066d5e778aff08c434c27eb332e4d0f0cbf224b1a4eefde43cfa1667f1'',
                  transaction_hash = ''0123456789abcdef0123456789abcdef'',
                  block_index = 1,
                  receipt_timestamp = ''2024-01-15 10:31:07.000664''\<rparr>,
                \<lparr>blockchain = chain1_sample\<rparr>)
          = (Inr (r, \<lparr>blockchain = chain0_sample\<rparr>
                \<lparr>blockchain := (blockchain \<lparr>blockchain = chain0_sample\<rparr>)
                   \<lparr>chain := chain (blockchain \<lparr>blockchain = chain0_sample\<rparr>) @ [b]\<rparr>\<rparr>)
              :: error + cast_receipt \<times> BlockchainService) \<and>
          success r \<and> block_hash r = hash b \<and>
          dict_get (data b) ''election_id'' = PInt 1 \<and>
          dict_get (data b) ''candidate_hash'' = PStr (sha256_sample (utf8 (py_str (PInt 1)))))"
proof -
  have none: "\<forall>s. PNone \<noteq> PStr s" by simp
  have ne: "chain (blockchain \<lparr>blockchain = chain0_sample\<rparr>) \<noteq> []"
    by (simp add: chain0_sample_def)
  have conv: "text_convertible (PInt 1)" by (rule small_int_convertible) simp
  have first: "cast_vote_to_blockchain sha256_sample ''2024-01-15 10:31:07.000100''
     ''0123456789abcdef0123456789abcdef'' ''2024-01-15 10:31:07.000664''
     PNone (PInt 1) (PInt 1) \<lparr>blockchain = chain0_sample\<rparr> = Some (Inl AttributeError)"
    by (rule cast_vote_checks_nothing [THEN conjunct1, THEN mp, THEN conjunct1, OF none])
  have kept: "serve sha256_sample
     [CastVote ''2024-01-15 10:31:07.000100'' ''0123456789abcdef0123456789abcdef''
        ''2024-01-15 10:31:07.000664'' PNone (PInt 1) (PInt 1)]
     \<lparr>blockchain = chain0_sample\<rparr> = Some \<lparr>blockchain = chain0_sample\<rparr>"
    by (rule cast_vote_checks_nothing [THEN conjunct1, THEN mp, THEN conjunct2, OF none])
  have second: "\<exists>r b. Inr (\<lparr>success = True,
                  block_hash = ''006c3a066d5e778aff08c434c27eb332e4d0f0cbf224b1a4eefde43cfa1667f1'',
                  transaction_hash = ''0123456789abcdef0123456789abcdef'',
                  block_index = 1,
                  receipt_timestamp = ''2024-01-15 10:31:07.000664''\<rparr>,
                \<lparr>blockchain = chain1_sample\<rparr>)
          = (Inr (r, \<lparr>blockchain = chain0_sample\<rparr>
                \<lparr>blockchain := (blockchain \<lparr>blockchain = chain0_sample\<rparr>)
                   \<lparr>chain := chain (blockchain \<lparr>blockchain = chain0_sample\<rparr>) @ [b]\<rparr>\<rparr>)
              :: error + cast_receipt \<times> BlockchainService) \<and>
          success r \<and> block_hash r = hash b \<and>
          dict_get (data b) ''election_id'' = PInt 1 \<and>
          dict_get (data b) ''candidate_hash'' = PStr (sha256_sample (utf8 (py_str (PInt 1))))"
    by (rule cast_vote_checks_nothing
        [THEN conjunct2, THEN mp, THEN mp, THEN mp, THEN mp, THEN mp,
          OF refl conv conv ne sample_cast_vote])
  from first kept conv ne sample_cast_vote second show ?thesis by blast
qed

text \<open>
  Claim C6. \<^verbatim>\<open>has_voter_voted(v, e)\<close> is true exactly when the chain holds a block of
  type \<^verbatim>\<open>vote\<close> whose \<^verbatim>\<open>election_id\<close> is \<open>e\<close> and whose \<^verbatim>\<open>voter_hash\<close> is the
  digest of \<open>v\<close>.
\<close>

theorem has_voter_voted_iff:
  "has_voter_voted H svc (PStr v) e =
     Inr (\<exists>b \<in> set (chain (blockchain svc)).
            dict_get (data b) ''type'' = PStr ''vote'' \<and>
            dict_get (data b) ''election_id'' = e \<and>
            dict_get (data b) ''voter_hash'' = PStr (H (utf8 v)))"
  by (auto simp: has_voter_voted_def has_voter_voted_loop_iff get_blocks_by_election_def
      is_vote_for_def)

theorem has_voter_voted_iff_witness:
  "has_voter_voted sha256_sample \<lparr>blockchain = chain1_sample\<rparr> (PStr ''voterA'') (PInt 1) = Inr True \<and>
   has_voter_voted sha256_sample \<lparr>blockchain = chain1_sample\<rparr> (PStr ''voterA'') (PInt 2) = Inr False \<and>
   has_voter_voted sha256_sample \<lparr>blockchain = chain1_sample\<rparr> (PStr ''voterB'') (PInt 1) = Inr False"
proof -
  have b: "sha256_sample (utf8 ''voterB'') \<noteq> sha256_sample (utf8 ''voterA'')"
    by (simp add: eval_defs)
  have "has_voter_voted sha256_sample \<lparr>blockchain = chain1_sample\<rparr> (PStr ''voterA'') (PInt 1) = Inr True"
    by (simp add: has_voter_voted_iff chain1_sample_def sample_data_lookups)
  moreover have "has_voter_voted sha256_sample \<lparr>blockchain = chain1_sample\<rparr> (PStr ''voterA'') (PInt 2) = Inr False"
    by (simp add: has_voter_voted_iff chain1_sample_def sample_data_lookups)
  moreover have "has_voter_voted sha256_sample \<lparr>blockchain = chain1_sample\<rparr> (PStr ''voterB'') (PInt 1) = Inr False"
    by (simp add: has_voter_voted_iff chain1_sample_def sample_data_lookups b b [THEN not_sym])
  ultimately show ?thesis by blast
qed

text \<open>
  Claim C7. In a service built by the constructor and used through its requests, the
  total of \<^verbatim>\<open>get_election_results(e)\<close> is the number of vote blocks of election \<open>e\<close>,
  and the counts of the vote distribution add up to that total. The digest is never the
  empty string (a SHA-256 hex digest has 64 characters).
\<close>

theorem tally_counts_votes:
  assumes "BlockchainService_init H now0 = Some svc0"
    and "serve H reqs svc0 = Some svc"
    and "\<forall>x. H x \<noteq> []"
  shows "total_votes (get_election_results H svc e)
           = int (length (filter (\<lambda>b. dict_get (data b) ''type'' = PStr ''vote'' \<and>
                                      dict_get (data b) ''election_id'' = e)
                            (chain (blockchain svc)))) \<and>
         sum_list (map snd (vote_distribution (get_election_results H svc e)))
           = total_votes (get_election_results H svc e)"
proof -
  from assms(1) have "votes_carry_candidate (chain (blockchain svc0))"
    by (intro votes_carry_candidate_genesis service_init_chain)
  with assms(2,3) have carry: "votes_carry_candidate (chain (blockchain svc))"
    using serve_votes_carry_candidate by blast
  have same: "filter (\<lambda>b. is_vote_for e b \<and> py_truthy (dict_get (data b) ''candidate_hash''))
          (chain (blockchain svc)) = filter (is_vote_for e) (chain (blockchain svc))"
    using carry by (intro filter_cong) (auto simp: votes_carry_candidate_def is_vote_for_def)
  have votes: "is_vote_for e = (\<lambda>b. dict_get (data b) ''type'' = PStr ''vote'' \<and>
                                    dict_get (data b) ''election_id'' = e)"
    by (rule ext) (simp add: is_vote_for_def)
  have total: "total_votes (get_election_results H svc e)
      = int (length (filter (is_vote_for e) (chain (blockchain svc))))"
    by (rule tally_general(1))
  have "sum_list (map snd (vote_distribution (get_election_results H svc e)))
      = int (length (filter (is_vote_for e) (chain (blockchain svc))))"
    unfolding tally_general(2) same by (rule refl)
  with total have "sum_list (map snd (vote_distribution (get_election_results H svc e)))
      = total_votes (get_election_results H svc e)"
    by simp
  with total [unfolded votes] show ?thesis by (rule conjI)
qed

theorem tally_counts_votes_witness:
  "BlockchainService_init sha256_sample ''2024-01-15 10:30:00.000010'' = Some \<lparr>blockchain = chain0_sample\<rparr> \<and>
   serve sha256_sample
     [CastVote ''2024-01-15 10:31:07.000100'' ''0123456789abcdef0123456789abcdef''
        ''2024-01-15 10:31:07.000664'' (PStr ''voterA'') (PInt 1) (PInt 1)]
     \<lparr>blockchain = chain0_sample\<rparr>
   = Some \<lparr>blockchain = chain1_sample\<rparr> \<and>
   total_votes (get_election_results sha256_sample \<lparr>blockchain = chain1_sample\<rparr> (PInt 1)) = 1 \<and>
   sum_list (map snd (vote_distribution
       (get_election_results sha256_sample \<lparr>blockchain = chain1_sample\<rparr> (PInt 1)))) = 1"
proof -
  note all = tally_counts_votes [OF sample_service_init sample_serve sha256_sample_nonempty, of "PInt 1"]
  have "filter (\<lambda>b. dict_get (data b) ''type'' = PStr ''vote'' \<and>
                  dict_get (data b) ''election_id'' = PInt 1)
          (chain (blockchain \<lparr>blockchain = chain1_sample\<rparr>)) = [vote_sample]"
    by (simp add: chain1_sample_def sample_data_lookups)
  with all have
    "total_votes (get_election_results sha256_sample \<lparr>blockchain = chain1_sample\<rparr> (PInt 1)) = 1"
    "sum_list (map snd (vote_distribution
       (get_election_results sha256_sample \<lparr>blockchain = chain1_sample\<rparr> (PInt 1)))) = 1"
    by simp_all
  with sample_service_init sample_serve show ?thesis by blast
qed

text \<open>
  Claim C8. \<^verbatim>\<open>verify_vote\<close> answers a hash that no block carries with the not-found
  dictionary, and a hash that some block carries with the validity of the chain and the
  index, timestamp and payload of the first block carrying it.
\<close>

theorem verify_vote_outcomes:
  "(bh \<notin> hash ` set (chain (blockchain svc)) \<longrightarrow>
      verify_vote H svc bh = NotVerified ''Vote not found on blockchain'') \<and>
   (bh \<in> hash ` set (chain (blockchain svc)) \<longrightarrow>
      (\<exists>b. find (\<lambda>x. hash x = bh) (chain (blockchain svc)) = Some b \<and>
           b \<in> set (chain (blockchain svc)) \<and> hash b = bh \<and>
           verify_vote H svc bh =
             Verified (is_chain_valid H (blockchain svc)) (index b) (timestamp b) (data b)
               ''Vote verified on blockchain''))"
proof (intro conjI impI)
  assume "bh \<notin> hash ` set (chain (blockchain svc))"
  then have "find (\<lambda>x. hash x = bh) (chain (blockchain svc)) = None"
    by (auto simp: find_None_iff)
  then show "verify_vote H svc bh = NotVerified ''Vote not found on blockchain''"
    by (simp add: verify_vote_def get_block_by_hash_def get_block_by_hash_loop_find)
next
  assume "bh \<in> hash ` set (chain (blockchain svc))"
  then obtain b where f: "find (\<lambda>x. hash x = bh) (chain (blockchain svc)) = Some b"
    by (cases "find (\<lambda>x. hash x = bh) (chain (blockchain svc))") (auto simp: find_None_iff)
  then have "b \<in> set (chain (blockchain svc))" "hash b = bh"
    by (auto simp: find_Some_iff)
  with f show "\<exists>b. find (\<lambda>x. hash x = bh) (chain (blockchain svc)) = Some b \<and>
           b \<in> set (chain (blockchain svc)) \<and> hash b = bh \<and>
           verify_vote H svc bh =
             Verified (is_chain_valid H (blockchain svc)) (index b) (timestamp b) (data b)
               ''Vote verified on blockchain''"
    by (simp add: verify_vote_def get_block_by_hash_def get_block_by_hash_loop_find)
qed

theorem verify_vote_outcomes_witness:
  "''deadbeef'' \<notin> hash ` set (chain (blockchain \<lparr>blockchain = chain1_sample\<rparr>)) \<and>
   verify_vote sha256_sample \<lparr>blockchain = chain1_sample\<rparr> ''deadbeef''
     = NotVerified ''Vote not found on blockchain'' \<and>
   hash vote_sample \<in> hash ` set (chain (blockchain \<lparr>blockchain = chain1_sample\<rparr>)) \<and>
   verify_vote sha256_sample \<lparr>blockchain = chain1_sample\<rparr> (hash vote_sample)
     = Verified True 1 ''2024-01-15 10:31:07.000664'' (data vote_sample) ''Vote verified on blockchain''"
proof -
  let ?svc = "\<lparr>blockchain = chain1_sample\<rparr>"
  have absent: "''deadbeef'' \<notin> hash ` set (chain (blockchain ?svc))"
    by (simp add: chain1_sample_def genesis_sample_def vote_sample_def)
  have present: "hash vote_sample \<in> hash ` set (chain (blockchain ?svc))"
    by (simp add: chain1_sample_def)
  have valid: "is_chain_valid sha256_sample chain1_sample"
    by (rule sample_chain1_valid)
  have nf: "verify_vote sha256_sample ?svc ''deadbeef'' = NotVerified ''Vote not found on blockchain''"
    by (rule verify_vote_outcomes [THEN conjunct1, THEN mp, OF absent])
  from verify_vote_outcomes [THEN conjunct2, THEN mp, OF present]
  obtain b where f: "find (\<lambda>x. hash x = hash vote_sample) (chain (blockchain ?svc)) = Some b"
    and v: "verify_vote sha256_sample ?svc (hash vote_sample) =
             Verified (is_chain_valid sha256_sample (blockchain ?svc)) (index b) (timestamp b) (data b)
               ''Vote verified on blockchain''"
    by blast
  have "find (\<lambda>x. hash x = hash vote_sample) (chain (blockchain ?svc)) = Some vote_sample"
    by (simp add: chain1_sample_def) (simp add: genesis_sample_def vote_sample_def)
  with f have "b = vote_sample" by simp
  with v valid have "verify_vote sha256_sample ?svc (hash vote_sample)
     = Verified True 1 ''2024-01-15 10:31:07.000664'' (data vote_sample) ''Vote verified on blockchain''"
    by (simp add: vote_sample_def)
  with absent nf present show ?thesis by blast
qed

text \<open>
  Claim C9. A \<^verbatim>\<open>cast_vote_to_blockchain\<close> call that succeeds makes the chain one block
  longer and leaves every block already stored as it was.
\<close>

theorem cast_vote_appends_one:
  assumes "cast_vote_to_blockchain H now_vote token now_block v e c svc = Some (Inr (r, svc'))"
  shows "length (chain (blockchain svc')) = length (chain (blockchain svc)) + 1 \<and>
         (\<forall>i < length (chain (blockchain svc)).
             chain (blockchain svc') ! i = chain (blockchain svc) ! i) \<and>
         take (length (chain (blockchain svc))) (chain (blockchain svc')) = chain (blockchain svc) \<and>
         hash (last (chain (blockchain svc'))) = block_hash r \<and>
         difficulty (blockchain svc') = difficulty (blockchain svc)"
proof -
  from cast_vote_Inr[OF assms] obtain vb b bc' where
    step: "add_block H now_block (vote_data_of H now_vote token vb e c) (blockchain svc) = Some (Inr (b, bc'))"
    and svc': "svc' = svc\<lparr>blockchain := bc'\<rparr>"
    and r: "r = \<lparr>success = True, block_hash = hash b, transaction_hash = token,
                block_index = index b, receipt_timestamp = timestamp b\<rparr>"
    by blast
  from add_block_fields(6,7)[OF step] svc' r show ?thesis
    by (simp add: nth_append)
qed

theorem cast_vote_appends_one_witness:
  "cast_vote_to_blockchain sha256_sample ''2024-01-15 10:31:07.000100''
     ''0123456789abcdef0123456789abcdef'' ''2024-01-15 10:31:07.000664''
     (PStr ''voterA'') (PInt 1) (PInt 1) \<lparr>blockchain = chain0_sample\<rparr>
   = Some (Inr (\<lparr>success = True,
                  block_hash = ''006c3a066d5e778aff08c434c27eb332e4d0f0cbf224b1a4eefde43cfa1667f1'',
                  transaction_hash = ''0123456789abcdef0123456789abcdef'',
                  block_index = 1,
                  receipt_timestamp = ''2024-01-15 10:31:07.000664''\<rparr>,
                \<lparr>blockchain = chain1_sample\<rparr>)) \<and>
   length (chain chain1_sample) = length (chain chain0_sample) + 1 \<and>
   chain chain1_sample ! 0 = chain chain0_sample ! 0 \<and>
   take (length (chain chain0_sample)) (chain chain1_sample) = chain chain0_sample"
proof -
  note all = cast_vote_appends_one [OF sample_cast_vote]
  then have len: "length (chain chain1_sample) = length (chain chain0_sample) + 1"
    and tk: "take (length (chain chain0_sample)) (chain chain1_sample) = chain chain0_sample"
    by simp_all
  have "0 < length (chain (blockchain \<lparr>blockchain = chain0_sample\<rparr>))"
    by (simp add: chain0_sample_def)
  with all have "chain chain1_sample ! 0 = chain chain0_sample ! 0" by simp
  with sample_cast_vote len tk show ?thesis by blast
qed

text \<open>
  Claim C10. \<^verbatim>\<open>is_chain_valid\<close> never recomputes the hash of block 0: the genesis
  block of the example session with its nonce changed to 1 and its stored hash kept no
  longer matches its digest, and the chain still validates; in general the verdict does not
  depend on any field of block 0 other than its stored hash.
\<close>

theorem genesis_hash_not_checked:
  "VotingBlockchain_init sha256_sample ''2024-01-15 10:30:00.000010'' = Some chain0_sample \<and>
   chain (chain0_sample\<lparr>chain := [genesis_sample\<lparr>nonce := 1\<rparr>]\<rparr>) = [genesis_sample\<lparr>nonce := 1\<rparr>] \<and>
   hash (genesis_sample\<lparr>nonce := 1\<rparr>) = hash genesis_sample \<and>
   hash (genesis_sample\<lparr>nonce := 1\<rparr>) \<noteq> calculate_hash sha256_sample (genesis_sample\<lparr>nonce := 1\<rparr>) \<and>
   is_chain_valid sha256_sample (chain0_sample\<lparr>chain := [genesis_sample\<lparr>nonce := 1\<rparr>]\<rparr>) \<and>
   is_chain_valid H \<lparr>chain = g\<lparr>index := i, timestamp := t, data := d, previous_hash := p, nonce := n\<rparr> # rest,
                     difficulty = k\<rparr>
     = is_chain_valid H \<lparr>chain = g # rest, difficulty = k\<rparr>"
proof -
  have differs: "hash (genesis_sample\<lparr>nonce := 1\<rparr>) \<noteq> calculate_hash sha256_sample (genesis_sample\<lparr>nonce := 1\<rparr>)"
    by (simp add: genesis_sample_def eval_defs)
  have valid: "is_chain_valid sha256_sample (chain0_sample\<lparr>chain := [genesis_sample\<lparr>nonce := 1\<rparr>]\<rparr>)"
    by (simp add: is_chain_valid_def)
  have general: "is_chain_valid H \<lparr>chain = g\<lparr>index := i, timestamp := t, data := d, previous_hash := p, nonce := n\<rparr> # rest,
                     difficulty = k\<rparr>
     = is_chain_valid H \<lparr>chain = g # rest, difficulty = k\<rparr>"
    by (rule is_chain_valid_first_fields) simp
  from sample_init differs valid general show ?thesis by simp
qed

theorem genesis_hash_not_checked_witness:
  "is_chain_valid sha256_sample
     \<lparr>chain = genesis_sample\<lparr>index := 0, timestamp := ''2024-01-15 10:30:00.000010'',
                data := [(''type'', PStr ''genesis''), (''message'', PStr ''tampered'')],
                previous_hash := ''0'', nonce := 7\<rparr> # [vote_sample],
      difficulty = 2\<rparr>"
proof -
  have "is_chain_valid sha256_sample \<lparr>chain = genesis_sample # [vote_sample], difficulty = 2\<rparr>"
    using sample_chain1_valid by (simp add: chain1_sample_def)
  with genesis_hash_not_checked [where H = sha256_sample and g = genesis_sample and i = 0
      and t = "''2024-01-15 10:30:00.000010''"
      and d = "[(''type'', PStr ''genesis''), (''message'', PStr ''tampered'')]"
      and p = "''0''" and n = 7 and rest = "[vote_sample]" and k = 2]
  show ?thesis by blast
qed

end
